theory Spec2Isabelle
  imports Main
begin

section \<open>The Couchbase database plugin: data model\<close>

text \<open>
  The plugin (package \<open>couchbase\<close>) consists of the connection producer
  (\<open>connection_producer.go\<close>), the credential operations (\<open>couchbase.go\<close>) and the
  creation-statement model (\<open>util.go\<close>).  Every Go function is embedded as a HOL function
  that takes the receiver's state and the trace of calls made so far to the outside
  (the gocb client and the credentials producer) and returns its result together with
  the new state and the extended trace.  The \<open>context.Context\<close> argument is accepted by
  every operation and used by none; it is left out.  The mutex is taken on entry and
  released on return of the locking operations, so one operation is one step here.
\<close>

subsection \<open>Errors\<close>

datatype error =
    ErrNotInitialized
  | ErrEmptyCreationStatement
  | Errorf string
  | Wrap string error
  | LibError string
  | NilDereference

text \<open>
  \<open>ErrNotInitialized\<close> is \<open>connutil.ErrNotInitialized\<close>, \<open>ErrEmptyCreationStatement\<close> is
  \<open>dbutil.ErrEmptyCreationStatement\<close>, \<open>Errorf m\<close> is \<open>fmt.Errorf(m)\<close> or \<open>errors.New(m)\<close>,
  \<open>Wrap m e\<close> is \<open>errors.Wrap(e, m)\<close> or \<open>errwrap.Wrapf(m, e)\<close>, \<open>LibError m\<close> is an error
  value that a library or the cluster hands back, and \<open>NilDereference\<close> is the panic of a
  method call through a nil pointer.
\<close>

subsection \<open>The creation statement (util.go)\<close>

record CbRole =
  Role :: string
  BucketName :: string

type_synonym CbRoles = "CbRole list"

record CbStatement =
  Roles :: CbRoles

text \<open>\<open>gocb.UserRole\<close> and \<open>gocb.UserSettings\<close>; the fields carry a prefix to keep them
  apart from the fields of the same name above.\<close>

record UserRole =
  gocb_Role :: string
  gocb_BucketName :: string

record UserSettings =
  settings_Name :: string
  settings_Password :: string
  settings_Roles :: "UserRole list"

text \<open>The loop of \<open>ToGocbUserRoles\<close> appends one converted role per iteration to
  \<open>userRoles\<close>, which starts empty.\<close>

fun ToGocbUserRoles_loop :: "UserRole list \<Rightarrow> CbRole list \<Rightarrow> UserRole list" where
  "ToGocbUserRoles_loop userRoles [] = userRoles"
| "ToGocbUserRoles_loop userRoles (r # rs) =
     ToGocbUserRoles_loop
       (userRoles @ [\<lparr>gocb_Role = Role r, gocb_BucketName = BucketName r\<rparr>]) rs"

definition ToGocbUserRoles :: "CbRoles \<Rightarrow> UserRole list" where
  "ToGocbUserRoles roles = ToGocbUserRoles_loop [] roles"

subsection \<open>Types of the Vault SDK that the operations receive\<close>

record Statements =
  Creation :: "string list"
  Revocation :: "string list"
  Rollback :: "string list"
  Renewal :: "string list"
  CreationStatements :: string
  RevocationStatements :: string
  RollbackStatements :: string
  RenewStatements :: string

record UsernameConfig =
  DisplayName :: string
  RoleName :: string

record StaticUserConfig =
  static_Username :: string
  static_Password :: string

record SQLCredentialsProducer =
  DisplayNameLen :: nat
  RoleNameLen :: nat
  UsernameLen :: nat
  Separator :: string

subsection \<open>The connection producer (connection_producer.go)\<close>

datatype cval = VString string | VBool bool | VInt int | VNil

type_synonym conf = "string \<rightharpoonup> cval"

text \<open>A \<open>*gocb.Cluster\<close> is a handle; nil is \<open>None\<close>.  A \<open>*gocb.ClusterManager\<close> remembers
  the cluster it was derived from and the credentials given to \<open>Manager\<close>.\<close>

type_synonym Cluster = nat

record ClusterManager =
  mgr_cluster :: Cluster
  mgr_username :: string
  mgr_password :: string

record couchbaseConnectionProducer =
  ConnectionString :: string
  Username :: string
  Password :: string
  Bucket :: string
  Type :: string
  Initialized :: bool
  RawConfig :: conf
  cluster :: "Cluster option"
  clusterManager :: "ClusterManager option"

record Couchbase =
  connProducer :: couchbaseConnectionProducer
  credsProducer :: SQLCredentialsProducer

subsection \<open>The outside: calls, their trace and their outcomes\<close>

datatype call =
    gocb_Connect string
  | Cluster_SetConnectTimeout Cluster nat
  | Cluster_SetServerConnectTimeout Cluster nat
  | Cluster_Authenticate Cluster string string
  | Cluster_OpenBucket Cluster string string
  | Cluster_Manager Cluster string string
  | Cluster_Close Cluster
  | Manager_UpsertUser ClusterManager string string UserSettings
  | Manager_RemoveUser ClusterManager string string
  | Creds_GenerateUsername SQLCredentialsProducer UsernameConfig
  | Creds_GeneratePassword SQLCredentialsProducer

type_synonym world = "call list"

text \<open>
  What the outside answers is not fixed by the plugin: \<open>outcome\<close> says whether a call
  fails, given the calls made before it; \<open>gen_username\<close> and \<open>gen_password\<close> are the
  strings the credentials producer hands out when it does not fail.
\<close>

record env =
  outcome :: "world \<Rightarrow> call \<Rightarrow> error option"
  gen_username :: "world \<Rightarrow> SQLCredentialsProducer \<Rightarrow> UsernameConfig \<Rightarrow> string"
  gen_password :: "world \<Rightarrow> SQLCredentialsProducer \<Rightarrow> string"

text \<open>
  The library functions that compute without the outside: \<open>mapstructure.WeakDecode\<close>
  (which writes into the producer and may fail), \<open>json.Unmarshal\<close> into a fresh
  \<open>CbStatement\<close>, and \<open>dbutil.StatementCompatibilityHelper\<close>.  Their code is not part of
  the plugin, so the operations take them as a parameter.
\<close>

record lib =
  WeakDecode :: "conf \<Rightarrow> couchbaseConnectionProducer \<Rightarrow> couchbaseConnectionProducer \<times> error option"
  json_Unmarshal :: "string \<Rightarrow> error + CbStatement"
  StatementCompatibilityHelper :: "Statements \<Rightarrow> Statements"

definition invoke :: "env \<Rightarrow> call \<Rightarrow> world \<Rightarrow> error option \<times> world" where
  "invoke E c w = (outcome E w c, w @ [c])"

section \<open>The connection producer's operations\<close>

definition Connection ::
  "env \<Rightarrow> couchbaseConnectionProducer \<Rightarrow> world
     \<Rightarrow> (error + Cluster) \<times> couchbaseConnectionProducer \<times> world" where
  "Connection E c w =
     (if \<not> Initialized c then (Inl ErrNotInitialized, c, w)
      else
        case invoke E (gocb_Connect (ConnectionString c)) w of
          (Some err, w1) \<Rightarrow> (Inl err, c, w1)
        | (None, w1) \<Rightarrow>
           (let cl = length w;
                w2 = snd (invoke E (Cluster_SetConnectTimeout cl 30) w1);
                w3 = snd (invoke E (Cluster_SetServerConnectTimeout cl 30) w2)
            in case invoke E (Cluster_Authenticate cl (Username c) (Password c)) w3 of
                 (Some err, w4) \<Rightarrow> (Inl err, c, w4)
               | (None, w4) \<Rightarrow>
                  (case invoke E (Cluster_OpenBucket cl (Bucket c) []) w4 of
                     (Some err, w5) \<Rightarrow>
                       (Inl (Wrap (''could not open bucket '' @ Bucket c) err), c, w5)
                   | (None, w5) \<Rightarrow>
                      (let w6 = snd (invoke E (Cluster_Manager cl (Username c) (Password c)) w5);
                           mgr = \<lparr>mgr_cluster = cl, mgr_username = Username c,
                                  mgr_password = Password c\<rparr>
                       in (Inr cl, c\<lparr>cluster := Some cl, clusterManager := Some mgr\<rparr>, w6)))))"

text \<open>The cluster that \<open>gocb.Connect\<close> returns is a new object: its handle is the position
  of the \<open>gocb_Connect\<close> call in the trace, which no earlier cluster has.\<close>

definition Init ::
  "lib \<Rightarrow> env \<Rightarrow> couchbaseConnectionProducer \<Rightarrow> conf \<Rightarrow> bool \<Rightarrow> world
     \<Rightarrow> (error + conf) \<times> couchbaseConnectionProducer \<times> world" where
  "Init L E c conf verifyConnection w =
     (case WeakDecode L conf (c\<lparr>RawConfig := conf\<rparr>) of
        (c1, Some err) \<Rightarrow> (Inl err, c1, w)
      | (c1, None) \<Rightarrow>
          if length (ConnectionString c1) = 0
          then (Inl (Errorf ''connection_string cannot be empty''), c1, w)
          else if length (Username c1) = 0
          then (Inl (Errorf ''username cannot be empty''), c1, w)
          else if length (Password c1) = 0
          then (Inl (Errorf ''password cannot be empty''), c1, w)
          else
            (let c2 = c1\<lparr>Initialized := True\<rparr>
             in if verifyConnection
                then (case Connection E c2 w of
                        (Inl err, c3, w') \<Rightarrow>
                          (Inl (Wrap ''error verifying connection: {{err}}'' err), c3, w')
                      | (Inr _, c3, w') \<Rightarrow> (Inr conf, c3, w'))
                else (Inr conf, c2, w)))"

definition Initialize ::
  "lib \<Rightarrow> env \<Rightarrow> couchbaseConnectionProducer \<Rightarrow> conf \<Rightarrow> bool \<Rightarrow> world
     \<Rightarrow> error option \<times> couchbaseConnectionProducer \<times> world" where
  "Initialize L E c conf verifyConnection w =
     (case Init L E c conf verifyConnection w of
        (Inl err, c', w') \<Rightarrow> (Some err, c', w')
      | (Inr _, c', w') \<Rightarrow> (None, c', w'))"

definition Close ::
  "env \<Rightarrow> couchbaseConnectionProducer \<Rightarrow> world
     \<Rightarrow> error option \<times> couchbaseConnectionProducer \<times> world" where
  "Close E c w =
     (case cluster c of
        Some cl \<Rightarrow>
          (case invoke E (Cluster_Close cl) w of
             (Some err, w') \<Rightarrow> (Some err, c, w')
           | (None, w') \<Rightarrow> (None, c\<lparr>cluster := None\<rparr>, w'))
      | None \<Rightarrow> (None, c\<lparr>cluster := None\<rparr>, w))"

section \<open>The credential operations (couchbase.go)\<close>

definition couchbaseTypeName :: string where
  "couchbaseTypeName = ''couchbase''"

definition authDomain :: string where
  "authDomain = ''local''"

definition new :: Couchbase where
  "new =
     \<lparr>connProducer =
        \<lparr>ConnectionString = [], Username = [], Password = [], Bucket = [],
         Type = couchbaseTypeName, Initialized = False, RawConfig = Map.empty,
         cluster = None, clusterManager = None\<rparr>,
      credsProducer =
        \<lparr>DisplayNameLen = 15, RoleNameLen = 15, UsernameLen = 100, Separator = ''_''\<rparr>\<rparr>"

definition GenerateUsername ::
  "env \<Rightarrow> SQLCredentialsProducer \<Rightarrow> UsernameConfig \<Rightarrow> world \<Rightarrow> (error + string) \<times> world" where
  "GenerateUsername E scp config w =
     (case invoke E (Creds_GenerateUsername scp config) w of
        (Some err, w') \<Rightarrow> (Inl err, w')
      | (None, w') \<Rightarrow> (Inr (gen_username E w scp config), w'))"

definition GeneratePassword ::
  "env \<Rightarrow> SQLCredentialsProducer \<Rightarrow> world \<Rightarrow> (error + string) \<times> world" where
  "GeneratePassword E scp w =
     (case invoke E (Creds_GeneratePassword scp) w of
        (Some err, w') \<Rightarrow> (Inl err, w')
      | (None, w') \<Rightarrow> (Inr (gen_password E w scp), w'))"

definition upsertUser ::
  "lib \<Rightarrow> env \<Rightarrow> ClusterManager option \<Rightarrow> string \<Rightarrow> string \<Rightarrow> string \<Rightarrow> world
     \<Rightarrow> (error + string \<times> string) \<times> world" where
  "upsertUser L E manager creationStatement username password w =
     (case json_Unmarshal L creationStatement of
        Inl err \<Rightarrow> (Inl (Wrap ''invalid creation statement'' err), w)
      | Inr cbStatement \<Rightarrow>
          if length (Roles cbStatement) = 0
          then (Inl (Errorf ''at least one role should be given in creation statement''), w)
          else
            (case manager of
               None \<Rightarrow> (Inl NilDereference, w)
             | Some m \<Rightarrow>
                (case invoke E
                        (Manager_UpsertUser m authDomain username
                           \<lparr>settings_Name = username, settings_Password = password,
                            settings_Roles = ToGocbUserRoles (Roles cbStatement)\<rparr>) w of
                   (Some err, w') \<Rightarrow> (Inl (Wrap ''error when upserting user'' err), w')
                 | (None, w') \<Rightarrow> (Inr (username, password), w'))))"

definition CreateUser ::
  "lib \<Rightarrow> env \<Rightarrow> Couchbase \<Rightarrow> Statements \<Rightarrow> UsernameConfig \<Rightarrow> int \<Rightarrow> world
     \<Rightarrow> (error + string \<times> string) \<times> Couchbase \<times> world" where
  "CreateUser L E cb statements usernameConfig expiration w =
     (let statements' = StatementCompatibilityHelper L statements
      in if length (Creation statements') = 0
         then (Inl ErrEmptyCreationStatement, cb, w)
         else
           (case Connection E (connProducer cb) w of
              (Inl err, c1, w1) \<Rightarrow> (Inl err, cb\<lparr>connProducer := c1\<rparr>, w1)
            | (Inr _, c1, w1) \<Rightarrow>
               (case GenerateUsername E (credsProducer cb) usernameConfig w1 of
                  (Inl err, w2) \<Rightarrow> (Inl err, cb\<lparr>connProducer := c1\<rparr>, w2)
                | (Inr username, w2) \<Rightarrow>
                   (case GeneratePassword E (credsProducer cb) w2 of
                      (Inl err, w3) \<Rightarrow> (Inl err, cb\<lparr>connProducer := c1\<rparr>, w3)
                    | (Inr password, w3) \<Rightarrow>
                       (case upsertUser L E (clusterManager c1) (Creation statements' ! 0)
                               username password w3 of
                          (r, w4) \<Rightarrow> (r, cb\<lparr>connProducer := c1\<rparr>, w4))))))"

definition SetCredentials ::
  "lib \<Rightarrow> env \<Rightarrow> Couchbase \<Rightarrow> Statements \<Rightarrow> StaticUserConfig \<Rightarrow> world
     \<Rightarrow> (error + string \<times> string) \<times> Couchbase \<times> world" where
  "SetCredentials L E cb statements staticConfig w =
     (let statements' = StatementCompatibilityHelper L statements
      in if length (Creation statements') = 0
         then (Inl ErrEmptyCreationStatement, cb, w)
         else
           (case Connection E (connProducer cb) w of
              (Inl err, c1, w1) \<Rightarrow> (Inl err, cb\<lparr>connProducer := c1\<rparr>, w1)
            | (Inr _, c1, w1) \<Rightarrow>
               (case upsertUser L E (clusterManager c1) (Creation statements' ! 0)
                       (static_Username staticConfig) (static_Password staticConfig) w1 of
                  (r, w2) \<Rightarrow> (r, cb\<lparr>connProducer := c1\<rparr>, w2))))"

definition RenewUser ::
  "Couchbase \<Rightarrow> Statements \<Rightarrow> string \<Rightarrow> int \<Rightarrow> world \<Rightarrow> error option \<times> Couchbase \<times> world" where
  "RenewUser cb statements username expiration w = (None, cb, w)"

definition RevokeUser ::
  "env \<Rightarrow> Couchbase \<Rightarrow> Statements \<Rightarrow> string \<Rightarrow> world \<Rightarrow> error option \<times> Couchbase \<times> world" where
  "RevokeUser E cb statements username w =
     (case Connection E (connProducer cb) w of
        (Inl err, c1, w1) \<Rightarrow> (Some err, cb\<lparr>connProducer := c1\<rparr>, w1)
      | (Inr _, c1, w1) \<Rightarrow>
         (case clusterManager c1 of
            None \<Rightarrow> (Some NilDereference, cb\<lparr>connProducer := c1\<rparr>, w1)
          | Some m \<Rightarrow>
             (case invoke E (Manager_RemoveUser m authDomain username) w1 of
                (r, w2) \<Rightarrow> (r, cb\<lparr>connProducer := c1\<rparr>, w2))))"

definition RotateRootCredentials ::
  "Couchbase \<Rightarrow> string list \<Rightarrow> world \<Rightarrow> (error + conf) \<times> Couchbase \<times> world" where
  "RotateRootCredentials cb statements w =
     (Inl (Errorf ''root credential rotation is not currently implemented in couchbase''),
      cb, w)"

section \<open>The username generator, from the specification\<close>

text \<open>
  Modelled from the spec: \<open>SQLCredentialsProducer.GenerateUsername\<close>, which lives in the
  Vault SDK and has no source in the plugin.  The specification describes it as a pure
  function "bounded to a fixed maximum total length, built from (possibly truncated)
  display-name and role-name fragments joined by a fixed separator character".  The
  plugin's \<open>new\<close> supplies the bounds and the separator.
\<close>

definition spec_generateUsername :: "SQLCredentialsProducer \<Rightarrow> UsernameConfig \<Rightarrow> string" where
  "spec_generateUsername scp config =
     take (UsernameLen scp)
       (take (DisplayNameLen scp) (DisplayName config) @ Separator scp
          @ take (RoleNameLen scp) (RoleName config))"

section \<open>Observations on traces\<close>

fun is_upsert :: "call \<Rightarrow> bool" where
  "is_upsert (Manager_UpsertUser m d u s) = True"
| "is_upsert c = False"

text \<open>The calls that create, replace or remove an identity on the cluster.\<close>

fun is_admin :: "call \<Rightarrow> bool" where
  "is_admin (Manager_UpsertUser m d u s) = True"
| "is_admin (Manager_RemoveUser m d u) = True"
| "is_admin c = False"

fun is_connect :: "call \<Rightarrow> bool" where
  "is_connect (gocb_Connect s) = True"
| "is_connect c = False"

text \<open>Whether the steps that precede the call of \<open>upsertUser\<close> succeed: the connection
  for \<open>SetCredentials\<close>; the connection and both generators for \<open>CreateUser\<close>.\<close>

definition SetCredentials_reaches_upsert :: "env \<Rightarrow> Couchbase \<Rightarrow> world \<Rightarrow> bool" where
  "SetCredentials_reaches_upsert E cb w =
     (case Connection E (connProducer cb) w of
        (Inl err, c1, w1) \<Rightarrow> False
      | (Inr cl, c1, w1) \<Rightarrow> True)"

definition CreateUser_reaches_upsert ::
  "env \<Rightarrow> Couchbase \<Rightarrow> UsernameConfig \<Rightarrow> world \<Rightarrow> bool" where
  "CreateUser_reaches_upsert E cb usernameConfig w =
     (case Connection E (connProducer cb) w of
        (Inl err, c1, w1) \<Rightarrow> False
      | (Inr cl, c1, w1) \<Rightarrow>
         (case GenerateUsername E (credsProducer cb) usernameConfig w1 of
            (Inl err, w2) \<Rightarrow> False
          | (Inr username, w2) \<Rightarrow>
             (case GeneratePassword E (credsProducer cb) w2 of
                (Inl err, w3) \<Rightarrow> False
              | (Inr password, w3) \<Rightarrow> True)))"

section \<open>Concrete libraries, environments and inputs\<close>

text \<open>
  The concrete runs below use a decoder that stores the four tagged keys of the
  configuration when they hold strings, a statement decoder that knows three statements
  and refuses every other string, and the compatibility helper that leaves the
  statements as they are.
\<close>

definition decode_strings ::
  "conf \<Rightarrow> couchbaseConnectionProducer \<Rightarrow> couchbaseConnectionProducer \<times> error option" where
  "decode_strings conf c =
     (let c1 = (case conf ''connection_string'' of
                  Some (VString s) \<Rightarrow> c\<lparr>ConnectionString := s\<rparr> | _ \<Rightarrow> c);
          c2 = (case conf ''username'' of
                  Some (VString s) \<Rightarrow> c1\<lparr>Username := s\<rparr> | _ \<Rightarrow> c1);
          c3 = (case conf ''password'' of
                  Some (VString s) \<Rightarrow> c2\<lparr>Password := s\<rparr> | _ \<Rightarrow> c2);
          c4 = (case conf ''bucket'' of
                  Some (VString s) \<Rightarrow> c3\<lparr>Bucket := s\<rparr> | _ \<Rightarrow> c3)
      in (c4, None))"

definition stmt_full_access :: string where
  \<open>stmt_full_access = ''{"roles":[{"role":"bucket_full_access","bucket_name":"Test"}]}''\<close>

definition stmt_two_roles :: string where
  \<open>stmt_two_roles =
     ''{"roles":[{"role":"bucket_admin","bucket_name":"Products"},{"role":"ro_admin"}]}''\<close>

definition stmt_no_roles :: string where
  \<open>stmt_no_roles = ''{"roles":[]}''\<close>

definition unmarshal_known :: "string \<Rightarrow> error + CbStatement" where
  "unmarshal_known s =
     (if s = stmt_full_access
      then Inr \<lparr>Roles = [\<lparr>Role = ''bucket_full_access'', BucketName = ''Test''\<rparr>]\<rparr>
      else if s = stmt_two_roles
      then Inr \<lparr>Roles = [\<lparr>Role = ''bucket_admin'', BucketName = ''Products''\<rparr>,
                          \<lparr>Role = ''ro_admin'', BucketName = []\<rparr>]\<rparr>
      else if s = stmt_no_roles then Inr \<lparr>Roles = []\<rparr>
      else Inl (LibError ''invalid character''))"

text \<open>
  The compatibility helper as the Vault SDK defines it
  (\<open>dbutil.StatementCompatibilityHelper\<close>; its source is not part of the plugin).  For
  each kind of statement in turn it looks at the list and at the legacy single string: a
  non-empty list with an empty legacy string fills the legacy string with the list joined
  by \<open>;\<close>, and a non-empty legacy string replaces the list by the one-element list of that
  string.
\<close>

fun strings_Join :: "string list \<Rightarrow> string \<Rightarrow> string" where
  "strings_Join [] sep = []"
| "strings_Join [x] sep = x"
| "strings_Join (x # y # ys) sep = x @ sep @ strings_Join (y # ys) sep"

definition compat_Creation :: "Statements \<Rightarrow> Statements" where
  "compat_Creation statements =
     (if 0 < length (Creation statements) \<and> length (CreationStatements statements) = 0
      then statements\<lparr>CreationStatements := strings_Join (Creation statements) '';''\<rparr>
      else if 0 < length (CreationStatements statements)
      then statements\<lparr>Creation := [CreationStatements statements]\<rparr>
      else statements)"

definition compat_Revocation :: "Statements \<Rightarrow> Statements" where
  "compat_Revocation statements =
     (if 0 < length (Revocation statements) \<and> length (RevocationStatements statements) = 0
      then statements\<lparr>RevocationStatements := strings_Join (Revocation statements) '';''\<rparr>
      else if 0 < length (RevocationStatements statements)
      then statements\<lparr>Revocation := [RevocationStatements statements]\<rparr>
      else statements)"

definition compat_Rollback :: "Statements \<Rightarrow> Statements" where
  "compat_Rollback statements =
     (if 0 < length (Rollback statements) \<and> length (RollbackStatements statements) = 0
      then statements\<lparr>RollbackStatements := strings_Join (Rollback statements) '';''\<rparr>
      else if 0 < length (RollbackStatements statements)
      then statements\<lparr>Rollback := [RollbackStatements statements]\<rparr>
      else statements)"

definition compat_Renewal :: "Statements \<Rightarrow> Statements" where
  "compat_Renewal statements =
     (if 0 < length (Renewal statements) \<and> length (RenewStatements statements) = 0
      then statements\<lparr>RenewStatements := strings_Join (Renewal statements) '';''\<rparr>
      else if 0 < length (RenewStatements statements)
      then statements\<lparr>Renewal := [RenewStatements statements]\<rparr>
      else statements)"

definition sdk_StatementCompatibilityHelper :: "Statements \<Rightarrow> Statements" where
  "sdk_StatementCompatibilityHelper statements =
     compat_Renewal (compat_Rollback (compat_Revocation (compat_Creation statements)))"

definition plain_lib :: lib where
  "plain_lib =
     \<lparr>WeakDecode = decode_strings, json_Unmarshal = unmarshal_known,
      StatementCompatibilityHelper = (\<lambda>s. s)\<rparr>"

definition sdk_lib :: lib where
  "sdk_lib = plain_lib\<lparr>StatementCompatibilityHelper := sdk_StatementCompatibilityHelper\<rparr>"

definition env_of :: "(call \<Rightarrow> error option) \<Rightarrow> env" where
  "env_of f =
     \<lparr>outcome = (\<lambda>w. f),
      gen_username = (\<lambda>w scp config. ''v_token_reader_x7Jq2m_1600000000''),
      gen_password = (\<lambda>w scp. ''A1a-Zx81kq'')\<rparr>"

definition all_ok :: "call \<Rightarrow> error option" where
  "all_ok c = None"

definition connect_refused :: "call \<Rightarrow> error option" where
  "connect_refused c = (if is_connect c then Some (LibError ''connection refused'') else None)"

fun close_fails :: "call \<Rightarrow> error option" where
  "close_fails (Cluster_Close cl) = Some (LibError ''bucket close failed'')"
| "close_fails c = None"

definition test_conf :: conf where
  "test_conf =
     [''connection_string'' \<mapsto> VString ''couchbase://localhost'',
      ''username'' \<mapsto> VString ''admin'',
      ''password'' \<mapsto> VString ''password'',
      ''bucket'' \<mapsto> VString ''Test'']"

definition creation_only :: "string list \<Rightarrow> Statements" where
  "creation_only cs =
     \<lparr>Creation = cs, Revocation = [], Rollback = [], Renewal = [],
      CreationStatements = [], RevocationStatements = [], RollbackStatements = [],
      RenewStatements = []\<rparr>"

text \<open>Statements in the legacy form: no list, only the single creation string.\<close>

definition legacy_only :: "string \<Rightarrow> Statements" where
  "legacy_only s = (creation_only [])\<lparr>CreationStatements := s\<rparr>"

definition test_user :: UsernameConfig where
  "test_user = \<lparr>DisplayName = ''test-user'', RoleName = ''test-role''\<rparr>"

definition static_user :: StaticUserConfig where
  "static_user = \<lparr>static_Username = ''test-user'', static_Password = ''test-password''\<rparr>"

text \<open>The producer after a successful \<open>Init\<close> with \<open>test_conf\<close> and no verification, and
  the plugin that holds it.\<close>

definition ready_producer :: couchbaseConnectionProducer where
  "ready_producer =
     \<lparr>ConnectionString = ''couchbase://localhost'', Username = ''admin'',
      Password = ''password'', Bucket = ''Test'', Type = couchbaseTypeName,
      Initialized = True, RawConfig = test_conf, cluster = None, clusterManager = None\<rparr>"

definition ready :: Couchbase where
  "ready = new\<lparr>connProducer := ready_producer\<rparr>"

text \<open>The producer and the trace after one successful \<open>Connection\<close> of the ready producer
  in an environment \<open>E\<close>.\<close>

definition connected :: "env \<Rightarrow> couchbaseConnectionProducer \<times> world" where
  "connected E = snd (Connection E ready_producer [])"

text \<open>An environment whose credentials producer is the generator of the specification,
  and a username configuration with names longer than the bounds.\<close>

definition spec_env :: env where
  "spec_env = (env_of all_ok)\<lparr>gen_username := (\<lambda>w. spec_generateUsername)\<rparr>"

definition long_user :: UsernameConfig where
  "long_user =
     \<lparr>DisplayName = ''integration-test-user'', RoleName = ''couchbase-full-access-role''\<rparr>"

section \<open>Basic facts\<close>

lemma fst_invoke [simp]: "fst (invoke E c w) = outcome E w c"
  by (simp add: invoke_def)

lemma snd_invoke [simp]: "snd (invoke E c w) = w @ [c]"
  by (simp add: invoke_def)



lemmas run_defs =
  CreateUser_def SetCredentials_def RevokeUser_def Connection_def Init_def Close_def
  GenerateUsername_def GeneratePassword_def upsertUser_def invoke_def
  CreateUser_reaches_upsert_def SetCredentials_reaches_upsert_def
  plain_lib_def decode_strings_def unmarshal_known_def env_of_def
  all_ok_def connect_refused_def test_conf_def connected_def spec_env_def long_user_def
  spec_generateUsername_def
  ready_def ready_producer_def new_def creation_only_def test_user_def static_user_def
  stmt_full_access_def stmt_two_roles_def stmt_no_roles_def
  ToGocbUserRoles_def authDomain_def couchbaseTypeName_def

section \<open>Facts about the operations\<close>

subsection \<open>The compatibility helper of the SDK\<close>

lemma compat_keeps_Creation:
  "Creation (compat_Revocation st) = Creation st"
  "Creation (compat_Rollback st) = Creation st"
  "Creation (compat_Renewal st) = Creation st"
  by (simp_all add: compat_Revocation_def compat_Rollback_def compat_Renewal_def)

lemma sdk_helper_Creation:
  "Creation (sdk_StatementCompatibilityHelper st) =
     (if CreationStatements st = [] then Creation st else [CreationStatements st])"
  by (simp add: sdk_StatementCompatibilityHelper_def compat_keeps_Creation compat_Creation_def)

subsection \<open>Connection\<close>

lemma Connection_trace:
  "\<exists>ext. snd (snd (Connection E c w)) = w @ ext \<and> filter is_upsert ext = []"
  by (auto simp: Connection_def invoke_def Let_def split: option.splits)

lemma Connection_no_admin:
  "\<exists>ext. snd (snd (Connection E c w)) = w @ ext \<and> filter is_admin ext = []"
  by (auto simp: Connection_def invoke_def Let_def split: option.splits)

lemma Connection_Initialized:
  "Initialized (fst (snd (Connection E c w))) = Initialized c"
  by (auto simp: Connection_def invoke_def Let_def split: option.splits)

lemma Connection_failure_keeps:
  "isl (fst (Connection E c w)) \<Longrightarrow> fst (snd (Connection E c w)) = c"
  by (auto simp: Connection_def invoke_def Let_def split: option.splits if_splits)

lemma Connection_success:
  "fst (Connection E c w) = Inr cl \<Longrightarrow>
     cl = length w
     \<and> fst (snd (Connection E c w)) =
         c\<lparr>cluster := Some cl,
           clusterManager := Some \<lparr>mgr_cluster = cl, mgr_username = Username c,
                                   mgr_password = Password c\<rparr>\<rparr>"
  by (auto simp: Connection_def invoke_def Let_def split: option.splits if_splits)

lemma Connection_success_trace:
  "fst (Connection E c w) = Inr cl \<Longrightarrow>
     snd (snd (Connection E c w)) =
       w @ [gocb_Connect (ConnectionString c),
            Cluster_SetConnectTimeout cl 30,
            Cluster_SetServerConnectTimeout cl 30,
            Cluster_Authenticate cl (Username c) (Password c),
            Cluster_OpenBucket cl (Bucket c) [],
            Cluster_Manager cl (Username c) (Password c)]"
  by (auto simp: Connection_def invoke_def Let_def split: option.splits if_splits)

lemma Connection_connects:
  "Initialized c \<Longrightarrow>
     \<exists>rest. snd (snd (Connection E c w)) = w @ gocb_Connect (ConnectionString c) # rest"
  by (auto simp: Connection_def invoke_def Let_def split: option.splits)

lemma Connection_ignores_cache:
  "fst (Connection E (c\<lparr>cluster := x, clusterManager := y\<rparr>) w) = fst (Connection E c w)
   \<and> snd (snd (Connection E (c\<lparr>cluster := x, clusterManager := y\<rparr>) w))
       = snd (snd (Connection E c w))"
  by (auto simp: Connection_def invoke_def Let_def split: option.splits)

lemma RevokeUser_uses_new_manager:
  "fst (Connection E (connProducer cb) w) = Inr cl \<Longrightarrow>
     snd (snd (RevokeUser E cb st u w)) =
       snd (snd (Connection E (connProducer cb) w))
         @ [Manager_RemoveUser
              \<lparr>mgr_cluster = cl, mgr_username = Username (connProducer cb),
               mgr_password = Password (connProducer cb)\<rparr> authDomain u]"
  using Connection_success [of E "connProducer cb" w cl]
  by (auto simp: RevokeUser_def invoke_def split: prod.splits sum.splits option.splits)

subsection \<open>The generators and upsertUser\<close>

lemma GenerateUsername_trace:
  "snd (GenerateUsername E scp config w) = w @ [Creds_GenerateUsername scp config]"
  by (auto simp: GenerateUsername_def invoke_def split: option.splits)

lemma GeneratePassword_trace:
  "snd (GeneratePassword E scp w) = w @ [Creds_GeneratePassword scp]"
  by (auto simp: GeneratePassword_def invoke_def split: option.splits)

lemma upsertUser_parse_error:
  "json_Unmarshal L s = Inl e \<Longrightarrow>
     upsertUser L E m s u p w = (Inl (Wrap ''invalid creation statement'' e), w)"
  by (simp add: upsertUser_def)

lemma upsertUser_no_roles:
  "json_Unmarshal L s = Inr cs \<Longrightarrow> Roles cs = [] \<Longrightarrow>
     upsertUser L E m s u p w =
       (Inl (Errorf ''at least one role should be given in creation statement''), w)"
  by (simp add: upsertUser_def)

lemma upsertUser_trace:
  "snd (upsertUser L E mo s u p w) = w \<or>
   (\<exists>m cs. mo = Some m \<and> json_Unmarshal L s = Inr cs \<and> Roles cs \<noteq> [] \<and>
      snd (upsertUser L E mo s u p w) =
        w @ [Manager_UpsertUser m authDomain u
               \<lparr>settings_Name = u, settings_Password = p,
                settings_Roles = ToGocbUserRoles (Roles cs)\<rparr>])"
  by (auto simp: upsertUser_def invoke_def split: sum.splits option.splits)

lemma upsertUser_ext:
  "\<exists>ext. snd (upsertUser L E mo s u p w) = w @ ext \<and>
     (ext = [] \<or>
      (\<exists>m cs. json_Unmarshal L s = Inr cs \<and> Roles cs \<noteq> [] \<and>
         ext = [Manager_UpsertUser m authDomain u
                  \<lparr>settings_Name = u, settings_Password = p,
                   settings_Roles = ToGocbUserRoles (Roles cs)\<rparr>]))"
  using upsertUser_trace [of L E mo s u p w] by auto

lemma upsertUser_through:
  "\<exists>ext. snd (upsertUser L E (Some m) s u p w) = w @ ext
      \<and> (ext = [] \<or> (\<exists>x. ext = [Manager_UpsertUser m authDomain u x]))"
  by (auto simp: upsertUser_def invoke_def split: sum.splits option.splits)

lemma upsertUser_rejected:
  assumes "json_Unmarshal L s = Inl e \<or> (json_Unmarshal L s = Inr cs \<and> Roles cs = [])"
  shows "upsertUser L E m s u p w =
           (Inl (case json_Unmarshal L s of
                   Inl e' \<Rightarrow> Wrap ''invalid creation statement'' e'
                 | Inr cs' \<Rightarrow>
                     Errorf ''at least one role should be given in creation statement''), w)"
  using assms by (auto simp: upsertUser_def)

lemma upsertUser_returns_arguments:
  "fst (upsertUser L E m s u p w) = Inr (u', p') \<Longrightarrow> u' = u \<and> p' = p"
  by (auto simp: upsertUser_def invoke_def split: sum.splits option.splits if_splits)

lemma not_upsert_in_clean:
  "filter is_upsert e = [] \<Longrightarrow> Manager_UpsertUser m d u s \<notin> set e"
  by (auto simp: filter_empty_conv)

subsection \<open>CreateUser and SetCredentials\<close>

lemma SetCredentials_depends:
  assumes "Creation (StatementCompatibilityHelper L st) = Creation (StatementCompatibilityHelper L' st')"
    and "json_Unmarshal L = json_Unmarshal L'"
  shows "SetCredentials L E cb st sc w = SetCredentials L' E cb st' sc w"
  unfolding SetCredentials_def upsertUser_def Let_def assms by (rule refl)

lemma CreateUser_depends:
  assumes "Creation (StatementCompatibilityHelper L st) = Creation (StatementCompatibilityHelper L' st')"
    and "json_Unmarshal L = json_Unmarshal L'"
  shows "CreateUser L E cb st cfg ex w = CreateUser L' E cb st' cfg ex w"
  unfolding CreateUser_def upsertUser_def Let_def assms by (rule refl)

lemma SetCredentials_ext:
  "\<exists>ext. snd (snd (SetCredentials L E cb st sc w)) = w @ ext \<and>
     (filter is_upsert ext = [] \<or>
      (\<exists>m u p cs.
         json_Unmarshal L (Creation (StatementCompatibilityHelper L st) ! 0) = Inr cs
         \<and> Roles cs \<noteq> []
         \<and> filter is_upsert ext =
             [Manager_UpsertUser m authDomain u
                \<lparr>settings_Name = u, settings_Password = p,
                 settings_Roles = ToGocbUserRoles (Roles cs)\<rparr>]))"
proof -
  let ?s = "Creation (StatementCompatibilityHelper L st) ! 0"
  obtain r1 c1 w1 where conn: "Connection E (connProducer cb) w = (r1, c1, w1)"
    by (cases "Connection E (connProducer cb) w") auto
  with Connection_trace [of E "connProducer cb" w]
  obtain e1 where w1: "w1 = w @ e1" and e1: "filter is_upsert e1 = []" by auto
  show ?thesis
  proof (cases "Creation (StatementCompatibilityHelper L st) = [] \<or> isl r1")
    case True
    then show ?thesis using conn w1 e1
      by (auto simp: SetCredentials_def Let_def isl_def)
  next
    case False
    then obtain cl where r1: "r1 = Inr cl" by (cases r1) auto
    let ?up = "upsertUser L E (clusterManager c1) ?s (static_Username sc) (static_Password sc) w1"
    from upsertUser_ext [of L E "clusterManager c1" ?s "static_Username sc" "static_Password sc" w1]
    obtain e2 where w2: "snd ?up = w1 @ e2"
      and e2: "e2 = [] \<or> (\<exists>m cs. json_Unmarshal L ?s = Inr cs \<and> Roles cs \<noteq> [] \<and>
         e2 = [Manager_UpsertUser m authDomain (static_Username sc)
                  \<lparr>settings_Name = static_Username sc, settings_Password = static_Password sc,
                   settings_Roles = ToGocbUserRoles (Roles cs)\<rparr>])"
      by blast
    have tr: "snd (snd (SetCredentials L E cb st sc w)) = w @ (e1 @ e2)"
      using False conn r1 w1 w2 by (auto simp: SetCredentials_def Let_def split: prod.splits)
    from e2 show ?thesis
    proof
      assume "e2 = []"
      with tr e1 show ?thesis by auto
    next
      assume "\<exists>m cs. json_Unmarshal L ?s = Inr cs \<and> Roles cs \<noteq> [] \<and>
         e2 = [Manager_UpsertUser m authDomain (static_Username sc)
                  \<lparr>settings_Name = static_Username sc, settings_Password = static_Password sc,
                   settings_Roles = ToGocbUserRoles (Roles cs)\<rparr>]"
      then obtain m cs where "json_Unmarshal L ?s = Inr cs" "Roles cs \<noteq> []"
        "e2 = [Manager_UpsertUser m authDomain (static_Username sc)
                  \<lparr>settings_Name = static_Username sc, settings_Password = static_Password sc,
                   settings_Roles = ToGocbUserRoles (Roles cs)\<rparr>]" by blast
      with tr e1 show ?thesis
        by (intro exI [of _ "e1 @ e2"]) auto
    qed
  qed
qed

lemma CreateUser_ext:
  "\<exists>ext. snd (snd (CreateUser L E cb st cfg ex w)) = w @ ext \<and>
     (filter is_upsert ext = [] \<or>
      (\<exists>m u p cs.
         json_Unmarshal L (Creation (StatementCompatibilityHelper L st) ! 0) = Inr cs
         \<and> Roles cs \<noteq> []
         \<and> filter is_upsert ext =
             [Manager_UpsertUser m authDomain u
                \<lparr>settings_Name = u, settings_Password = p,
                 settings_Roles = ToGocbUserRoles (Roles cs)\<rparr>]))"
proof -
  let ?s = "Creation (StatementCompatibilityHelper L st) ! 0"
  let ?scp = "credsProducer cb"
  obtain r1 c1 w1 where conn: "Connection E (connProducer cb) w = (r1, c1, w1)"
    by (cases "Connection E (connProducer cb) w") auto
  with Connection_trace [of E "connProducer cb" w]
  obtain e1 where w1: "w1 = w @ e1" and e1: "filter is_upsert e1 = []" by auto
  obtain r2 w2 where gu: "GenerateUsername E ?scp cfg w1 = (r2, w2)"
    by (cases "GenerateUsername E ?scp cfg w1") auto
  with GenerateUsername_trace [of E ?scp cfg w1]
  have w2: "w2 = w1 @ [Creds_GenerateUsername ?scp cfg]" by simp
  obtain r3 w3 where gp: "GeneratePassword E ?scp w2 = (r3, w3)"
    by (cases "GeneratePassword E ?scp w2") auto
  with GeneratePassword_trace [of E ?scp w2]
  have w3: "w3 = w2 @ [Creds_GeneratePassword ?scp]" by simp
  show ?thesis
  proof (cases "Creation (StatementCompatibilityHelper L st) = [] \<or> isl r1 \<or> isl r2 \<or> isl r3")
    case True
    then show ?thesis using conn gu gp w1 w2 w3 e1
      by (auto simp: CreateUser_def Let_def isl_def split: sum.splits)
  next
    case False
    then obtain cl u p where r1: "r1 = Inr cl" and r2: "r2 = Inr u" and r3: "r3 = Inr p"
      by (cases r1; cases r2; cases r3) auto
    let ?up = "upsertUser L E (clusterManager c1) ?s u p w3"
    from upsertUser_ext [of L E "clusterManager c1" ?s u p w3]
    obtain e2 where w4: "snd ?up = w3 @ e2"
      and e2: "e2 = [] \<or> (\<exists>m cs. json_Unmarshal L ?s = Inr cs \<and> Roles cs \<noteq> [] \<and>
         e2 = [Manager_UpsertUser m authDomain u
                  \<lparr>settings_Name = u, settings_Password = p,
                   settings_Roles = ToGocbUserRoles (Roles cs)\<rparr>])"
      by blast
    let ?ext = "e1 @ [Creds_GenerateUsername ?scp cfg, Creds_GeneratePassword ?scp] @ e2"
    have tr: "snd (snd (CreateUser L E cb st cfg ex w)) = w @ ?ext"
      using False conn gu gp r1 r2 r3 w1 w2 w3 w4
      by (auto simp: CreateUser_def Let_def split: prod.splits)
    have fl: "filter is_upsert ?ext = filter is_upsert e2" using e1 by simp
    from e2 show ?thesis
    proof
      assume "e2 = []"
      with tr fl show ?thesis by (intro exI [of _ ?ext]) simp
    next
      assume "\<exists>m cs. json_Unmarshal L ?s = Inr cs \<and> Roles cs \<noteq> [] \<and>
         e2 = [Manager_UpsertUser m authDomain u
                  \<lparr>settings_Name = u, settings_Password = p,
                   settings_Roles = ToGocbUserRoles (Roles cs)\<rparr>]"
      then obtain m cs where "json_Unmarshal L ?s = Inr cs" "Roles cs \<noteq> []"
        "e2 = [Manager_UpsertUser m authDomain u
                  \<lparr>settings_Name = u, settings_Password = p,
                   settings_Roles = ToGocbUserRoles (Roles cs)\<rparr>]" by blast
      with tr fl show ?thesis
        by (intro exI [of _ ?ext]) auto
    qed
  qed
qed

lemma SetCredentials_upserts_through_new_manager:
  assumes mem: "Manager_UpsertUser m d u s
             \<in> set (drop (length w) (snd (snd (SetCredentials L E cb st sc w))))"
  shows "m = \<lparr>mgr_cluster = length w, mgr_username = Username (connProducer cb),
              mgr_password = Password (connProducer cb)\<rparr> \<and> d = authDomain"
proof -
  let ?c = "Manager_UpsertUser m d u s"
  let ?m = "\<lparr>mgr_cluster = length w, mgr_username = Username (connProducer cb),
              mgr_password = Password (connProducer cb)\<rparr>"
  obtain r1 c1 w1 where conn: "Connection E (connProducer cb) w = (r1, c1, w1)"
    by (cases "Connection E (connProducer cb) w") auto
  with Connection_trace [of E "connProducer cb" w]
  obtain e1 where w1: "w1 = w @ e1" and e1: "filter is_upsert e1 = []" by auto
  have ne1: "?c \<notin> set e1" by (rule not_upsert_in_clean [OF e1])
  show ?thesis
  proof (cases "Creation (StatementCompatibilityHelper L st) = [] \<or> isl r1")
    case True
    then have "snd (snd (SetCredentials L E cb st sc w)) = w
               \<or> snd (snd (SetCredentials L E cb st sc w)) = w @ e1"
      using conn w1 by (auto simp: SetCredentials_def Let_def isl_def)
    with mem ne1 show ?thesis by auto
  next
    case False
    then obtain cl where r1: "r1 = Inr cl" by (cases r1) auto
    from Connection_success [of E "connProducer cb" w cl] conn r1
    have mgr: "clusterManager c1 = Some ?m" by simp
    let ?up = "upsertUser L E (Some ?m) (Creation (StatementCompatibilityHelper L st) ! 0)
                 (static_Username sc) (static_Password sc) w1"
    from upsertUser_through [of L E ?m _ "static_Username sc" "static_Password sc" w1]
    obtain e2 where w2: "snd ?up = w1 @ e2"
      and e2: "e2 = [] \<or> (\<exists>x. e2 = [Manager_UpsertUser ?m authDomain (static_Username sc) x])"
      by blast
    have tr: "snd (snd (SetCredentials L E cb st sc w)) = w @ e1 @ e2"
      using False conn r1 mgr w1 w2 by (auto simp: SetCredentials_def Let_def split: prod.splits)
    from mem tr have "?c \<in> set e1 \<or> ?c \<in> set e2" by simp
    with ne1 have "?c \<in> set e2" by simp
    with e2 show ?thesis by auto
  qed
qed

lemma CreateUser_upserts_through_new_manager:
  assumes mem: "Manager_UpsertUser m d u s
             \<in> set (drop (length w) (snd (snd (CreateUser L E cb st cfg ex w))))"
  shows "m = \<lparr>mgr_cluster = length w, mgr_username = Username (connProducer cb),
              mgr_password = Password (connProducer cb)\<rparr> \<and> d = authDomain"
proof -
  let ?c = "Manager_UpsertUser m d u s"
  let ?m = "\<lparr>mgr_cluster = length w, mgr_username = Username (connProducer cb),
              mgr_password = Password (connProducer cb)\<rparr>"
  let ?scp = "credsProducer cb"
  obtain r1 c1 w1 where conn: "Connection E (connProducer cb) w = (r1, c1, w1)"
    by (cases "Connection E (connProducer cb) w") auto
  with Connection_trace [of E "connProducer cb" w]
  obtain e1 where w1: "w1 = w @ e1" and e1: "filter is_upsert e1 = []" by auto
  obtain r2 w2 where gu: "GenerateUsername E ?scp cfg w1 = (r2, w2)"
    by (cases "GenerateUsername E ?scp cfg w1") auto
  with GenerateUsername_trace [of E ?scp cfg w1]
  have w2: "w2 = w1 @ [Creds_GenerateUsername ?scp cfg]" by simp
  obtain r3 w3 where gp: "GeneratePassword E ?scp w2 = (r3, w3)"
    by (cases "GeneratePassword E ?scp w2") auto
  with GeneratePassword_trace [of E ?scp w2]
  have w3: "w3 = w2 @ [Creds_GeneratePassword ?scp]" by simp
  let ?g = "e1 @ [Creds_GenerateUsername ?scp cfg, Creds_GeneratePassword ?scp]"
  have g: "filter is_upsert ?g = []" using e1 by simp
  have w3': "w3 = w @ ?g" using w1 w2 w3 by simp
  show ?thesis
  proof (cases "Creation (StatementCompatibilityHelper L st) = [] \<or> isl r1 \<or> isl r2 \<or> isl r3")
    case True
    then have "\<exists>e. snd (snd (CreateUser L E cb st cfg ex w)) = w @ e \<and> filter is_upsert e = []"
      using conn gu gp w1 w2 w3 e1
      by (auto simp: CreateUser_def Let_def isl_def split: sum.splits)
    then obtain e where "snd (snd (CreateUser L E cb st cfg ex w)) = w @ e"
      and "filter is_upsert e = []" by blast
    with mem not_upsert_in_clean [of e m d u s] show ?thesis by simp
  next
    case False
    then obtain cl un pw where r1: "r1 = Inr cl" and r2: "r2 = Inr un" and r3: "r3 = Inr pw"
      by (cases r1; cases r2; cases r3) auto
    from Connection_success [of E "connProducer cb" w cl] conn r1
    have mgr: "clusterManager c1 = Some ?m" by simp
    let ?up = "upsertUser L E (Some ?m) (Creation (StatementCompatibilityHelper L st) ! 0)
                 un pw w3"
    from upsertUser_through [of L E ?m _ un pw w3]
    obtain e2 where w4: "snd ?up = w3 @ e2"
      and e2: "e2 = [] \<or> (\<exists>x. e2 = [Manager_UpsertUser ?m authDomain un x])"
      by blast
    have tr: "snd (snd (CreateUser L E cb st cfg ex w)) = w @ ?g @ e2"
      using False conn gu gp r1 r2 r3 mgr w3' w4
      by (auto simp: CreateUser_def Let_def split: prod.splits)
    from mem tr have "?c \<in> set ?g \<or> ?c \<in> set e2" by simp
    with not_upsert_in_clean [OF g, of m d u s] have "?c \<in> set e2" by blast
    with e2 show ?thesis by auto
  qed
qed

lemma CreateUser_rejects:
  assumes ne: "Creation (StatementCompatibilityHelper L st) \<noteq> []"
    and bad: "json_Unmarshal L (Creation (StatementCompatibilityHelper L st) ! 0) = Inl e
              \<or> (json_Unmarshal L (Creation (StatementCompatibilityHelper L st) ! 0) = Inr cs
                  \<and> Roles cs = [])"
  shows "isl (fst (CreateUser L E cb st cfg ex w))"
    and "CreateUser_reaches_upsert E cb cfg w \<Longrightarrow>
         fst (CreateUser L E cb st cfg ex w) =
           Inl (case json_Unmarshal L (Creation (StatementCompatibilityHelper L st) ! 0) of
                  Inl e' \<Rightarrow> Wrap ''invalid creation statement'' e'
                | Inr cs' \<Rightarrow>
                    Errorf ''at least one role should be given in creation statement'')"
  using ne bad
  by (auto simp: CreateUser_def CreateUser_reaches_upsert_def upsertUser_def Let_def
           split: prod.splits sum.splits)

lemma SetCredentials_rejects:
  assumes ne: "Creation (StatementCompatibilityHelper L st) \<noteq> []"
    and bad: "json_Unmarshal L (Creation (StatementCompatibilityHelper L st) ! 0) = Inl e
              \<or> (json_Unmarshal L (Creation (StatementCompatibilityHelper L st) ! 0) = Inr cs
                  \<and> Roles cs = [])"
  shows "isl (fst (SetCredentials L E cb st sc w))"
    and "SetCredentials_reaches_upsert E cb w \<Longrightarrow>
         fst (SetCredentials L E cb st sc w) =
           Inl (case json_Unmarshal L (Creation (StatementCompatibilityHelper L st) ! 0) of
                  Inl e' \<Rightarrow> Wrap ''invalid creation statement'' e'
                | Inr cs' \<Rightarrow>
                    Errorf ''at least one role should be given in creation statement'')"
  using ne bad
  by (auto simp: SetCredentials_def SetCredentials_reaches_upsert_def upsertUser_def Let_def
           split: prod.splits sum.splits)

lemma CreateUser_rejected_no_upsert:
  assumes bad: "json_Unmarshal L (Creation (StatementCompatibilityHelper L st) ! 0) = Inl e
              \<or> (json_Unmarshal L (Creation (StatementCompatibilityHelper L st) ! 0) = Inr cs
                  \<and> Roles cs = [])"
  shows "filter is_upsert (snd (snd (CreateUser L E cb st cfg ex w))) = filter is_upsert w"
  using CreateUser_ext [of L E cb st cfg ex w] bad by auto

lemma SetCredentials_rejected_no_upsert:
  assumes bad: "json_Unmarshal L (Creation (StatementCompatibilityHelper L st) ! 0) = Inl e
              \<or> (json_Unmarshal L (Creation (StatementCompatibilityHelper L st) ! 0) = Inr cs
                  \<and> Roles cs = [])"
  shows "filter is_upsert (snd (snd (SetCredentials L E cb st sc w))) = filter is_upsert w"
  using SetCredentials_ext [of L E cb st sc w] bad by auto

lemma SetCredentials_rejected_exact:
  assumes ne: "Creation (StatementCompatibilityHelper L st) \<noteq> []"
    and bad: "json_Unmarshal L (Creation (StatementCompatibilityHelper L st) ! 0) = Inl e
              \<or> (json_Unmarshal L (Creation (StatementCompatibilityHelper L st) ! 0) = Inr cs
                  \<and> Roles cs = [])"
  shows "SetCredentials L E cb st sc w =
           (case Connection E (connProducer cb) w of
              (Inl err, c1, w1) \<Rightarrow> (Inl err, cb\<lparr>connProducer := c1\<rparr>, w1)
            | (Inr cl, c1, w1) \<Rightarrow>
               (Inl (case json_Unmarshal L (Creation (StatementCompatibilityHelper L st) ! 0) of
                       Inl e' \<Rightarrow> Wrap ''invalid creation statement'' e'
                     | Inr cs' \<Rightarrow>
                         Errorf ''at least one role should be given in creation statement''),
                cb\<lparr>connProducer := c1\<rparr>, w1))"
  using ne by (simp add: SetCredentials_def Let_def upsertUser_rejected [OF bad]
                    split: prod.splits sum.splits)

lemma CreateUser_rejected_exact:
  assumes ne: "Creation (StatementCompatibilityHelper L st) \<noteq> []"
    and bad: "json_Unmarshal L (Creation (StatementCompatibilityHelper L st) ! 0) = Inl e
              \<or> (json_Unmarshal L (Creation (StatementCompatibilityHelper L st) ! 0) = Inr cs
                  \<and> Roles cs = [])"
  shows "CreateUser L E cb st cfg ex w =
           (case Connection E (connProducer cb) w of
              (Inl err, c1, w1) \<Rightarrow> (Inl err, cb\<lparr>connProducer := c1\<rparr>, w1)
            | (Inr cl, c1, w1) \<Rightarrow>
               (case GenerateUsername E (credsProducer cb) cfg w1 of
                  (Inl err, w2) \<Rightarrow> (Inl err, cb\<lparr>connProducer := c1\<rparr>, w2)
                | (Inr username, w2) \<Rightarrow>
                   (case GeneratePassword E (credsProducer cb) w2 of
                      (Inl err, w3) \<Rightarrow> (Inl err, cb\<lparr>connProducer := c1\<rparr>, w3)
                    | (Inr password, w3) \<Rightarrow>
                       (Inl (case json_Unmarshal L
                                    (Creation (StatementCompatibilityHelper L st) ! 0) of
                               Inl e' \<Rightarrow> Wrap ''invalid creation statement'' e'
                             | Inr cs' \<Rightarrow>
                                 Errorf
                                   ''at least one role should be given in creation statement''),
                        cb\<lparr>connProducer := c1\<rparr>, w3))))"
  using ne by (simp add: CreateUser_def Let_def upsertUser_rejected [OF bad]
                    split: prod.splits sum.splits)

lemma SetCredentials_rejected_no_admin:
  assumes ne: "Creation (StatementCompatibilityHelper L st) \<noteq> []"
    and bad: "json_Unmarshal L (Creation (StatementCompatibilityHelper L st) ! 0) = Inl e
              \<or> (json_Unmarshal L (Creation (StatementCompatibilityHelper L st) ! 0) = Inr cs
                  \<and> Roles cs = [])"
  shows "filter is_admin (snd (snd (SetCredentials L E cb st sc w))) = filter is_admin w"
proof -
  have "snd (snd (SetCredentials L E cb st sc w)) = snd (snd (Connection E (connProducer cb) w))"
    unfolding SetCredentials_rejected_exact [OF ne bad]
    by (simp split: prod.splits sum.splits)
  with Connection_no_admin [of E "connProducer cb" w] show ?thesis by auto
qed

lemma CreateUser_rejected_no_admin:
  assumes ne: "Creation (StatementCompatibilityHelper L st) \<noteq> []"
    and bad: "json_Unmarshal L (Creation (StatementCompatibilityHelper L st) ! 0) = Inl e
              \<or> (json_Unmarshal L (Creation (StatementCompatibilityHelper L st) ! 0) = Inr cs
                  \<and> Roles cs = [])"
  shows "filter is_admin (snd (snd (CreateUser L E cb st cfg ex w))) = filter is_admin w"
proof -
  let ?scp = "credsProducer cb"
  obtain r1 c1 w1 where conn: "Connection E (connProducer cb) w = (r1, c1, w1)"
    by (cases "Connection E (connProducer cb) w") auto
  with Connection_no_admin [of E "connProducer cb" w]
  obtain e1 where w1: "w1 = w @ e1" and e1: "filter is_admin e1 = []" by auto
  obtain r2 w2 where gu: "GenerateUsername E ?scp cfg w1 = (r2, w2)"
    by (cases "GenerateUsername E ?scp cfg w1") auto
  with GenerateUsername_trace [of E ?scp cfg w1]
  have w2: "w2 = w1 @ [Creds_GenerateUsername ?scp cfg]" by simp
  obtain r3 w3 where gp: "GeneratePassword E ?scp w2 = (r3, w3)"
    by (cases "GeneratePassword E ?scp w2") auto
  with GeneratePassword_trace [of E ?scp w2]
  have w3: "w3 = w2 @ [Creds_GeneratePassword ?scp]" by simp
  have "snd (snd (CreateUser L E cb st cfg ex w)) = w1
        \<or> snd (snd (CreateUser L E cb st cfg ex w)) = w2
        \<or> snd (snd (CreateUser L E cb st cfg ex w)) = w3"
    unfolding CreateUser_rejected_exact [OF ne bad] using conn gu gp
    by (simp split: prod.splits sum.splits)
  with w1 w2 w3 e1 show ?thesis by auto
qed

lemma CreateUser_returns_generated:
  assumes run: "CreateUser L E cb st cfg ex w = (Inr (username, password), cb', w')"
  shows "\<exists>w1. username = gen_username E w1 (credsProducer cb) cfg"
proof -
  from run obtain w1 w3 w4 m s p where
    "upsertUser L E m s (gen_username E w1 (credsProducer cb) cfg) p w3
       = (Inr (username, password), w4)"
    by (auto simp: CreateUser_def GenerateUsername_def GeneratePassword_def invoke_def Let_def
             split: if_splits prod.splits sum.splits option.splits)
  then have "fst (upsertUser L E m s (gen_username E w1 (credsProducer cb) cfg) p w3)
       = Inr (username, password)" by simp
  from upsertUser_returns_arguments [OF this] show ?thesis by blast
qed

subsection \<open>Init\<close>

lemma Init_rejects:
  assumes dec: "WeakDecode L conf (c\<lparr>RawConfig := conf\<rparr>) = (c1, d)"
    and run: "Init L E c conf verifyConnection w = (r, c', w')"
    and bad: "d \<noteq> None \<or> ConnectionString c1 = [] \<or> Username c1 = [] \<or> Password c1 = []"
  shows "isl r \<and> c' = c1 \<and> w' = w"
  using dec run bad by (auto simp: Init_def split: option.splits if_splits)

lemma Init_passes:
  assumes dec: "WeakDecode L conf (c\<lparr>RawConfig := conf\<rparr>) = (c1, d)"
    and run: "Init L E c conf verifyConnection w = (r, c', w')"
    and good: "d = None \<and> ConnectionString c1 \<noteq> [] \<and> Username c1 \<noteq> [] \<and> Password c1 \<noteq> []"
  shows "Initialized c'"
    and "isl r \<Longrightarrow> verifyConnection \<and>
           (\<exists>e. r = Inl (Wrap ''error verifying connection: {{err}}'' e)
               \<and> fst (Connection E (c1\<lparr>Initialized := True\<rparr>) w) = Inl e)"
    and "\<not> isl r \<Longrightarrow> r = Inr conf"
proof -
  let ?c2 = "c1\<lparr>Initialized := True\<rparr>"
  obtain r3 c3 w3 where conn: "Connection E ?c2 w = (r3, c3, w3)"
    by (cases "Connection E ?c2 w") auto
  from Connection_Initialized [of E ?c2 w] conn have i3: "Initialized c3" by simp
  from dec run good conn i3 show "Initialized c'"
    by (auto simp: Init_def Let_def split: if_splits sum.splits)
  from dec run good conn show "verifyConnection \<and>
           (\<exists>e. r = Inl (Wrap ''error verifying connection: {{err}}'' e)
               \<and> fst (Connection E (c1\<lparr>Initialized := True\<rparr>) w) = Inl e)" if "isl r"
    using that by (auto simp: Init_def Let_def split: if_splits sum.splits)
  from dec run good conn show "r = Inr conf" if "\<not> isl r"
    using that by (auto simp: Init_def Let_def split: if_splits sum.splits)
qed

lemma Init_decode_error:
  assumes dec: "WeakDecode L conf (c\<lparr>RawConfig := conf\<rparr>) = (c1, Some e)"
  shows "Init L E c conf verifyConnection w = (Inl e, c1, w)"
  using dec by (simp add: Init_def)

lemma Init_exact:
  assumes dec: "WeakDecode L conf (c\<lparr>RawConfig := conf\<rparr>) = (c1, None)"
  shows "ConnectionString c1 = [] \<Longrightarrow>
           Init L E c conf verifyConnection w =
             (Inl (Errorf ''connection_string cannot be empty''), c1, w)"
    and "ConnectionString c1 \<noteq> [] \<Longrightarrow> Username c1 = [] \<Longrightarrow>
           Init L E c conf verifyConnection w =
             (Inl (Errorf ''username cannot be empty''), c1, w)"
    and "ConnectionString c1 \<noteq> [] \<Longrightarrow> Username c1 \<noteq> [] \<Longrightarrow> Password c1 = [] \<Longrightarrow>
           Init L E c conf verifyConnection w =
             (Inl (Errorf ''password cannot be empty''), c1, w)"
    and "ConnectionString c1 \<noteq> [] \<Longrightarrow> Username c1 \<noteq> [] \<Longrightarrow> Password c1 \<noteq> [] \<Longrightarrow>
           \<not> verifyConnection \<Longrightarrow>
           Init L E c conf verifyConnection w = (Inr conf, c1\<lparr>Initialized := True\<rparr>, w)"
    and "ConnectionString c1 \<noteq> [] \<Longrightarrow> Username c1 \<noteq> [] \<Longrightarrow> Password c1 \<noteq> [] \<Longrightarrow>
           verifyConnection \<Longrightarrow>
           Init L E c conf verifyConnection w =
             (case fst (Connection E (c1\<lparr>Initialized := True\<rparr>) w) of
                Inl err \<Rightarrow> Inl (Wrap ''error verifying connection: {{err}}'' err)
              | Inr cl \<Rightarrow> Inr conf,
              fst (snd (Connection E (c1\<lparr>Initialized := True\<rparr>) w)),
              snd (snd (Connection E (c1\<lparr>Initialized := True\<rparr>) w)))"
  using dec by (auto simp: Init_def Let_def split: prod.splits sum.splits)

section \<open>Renewal and root rotation\<close>

text \<open>
  Claim C7.  \<open>RenewUser\<close> returns success (no error) for every statements value, username
  and expiration, whatever the state of the plugin, and makes no call to the outside:
  the trace and the plugin's state are returned as they were.
\<close>

theorem RenewUser_always_ok:
  "RenewUser cb statements username expiration w = (None, cb, w)"
  by (simp add: RenewUser_def)

text \<open>
  Claim C8.  \<open>RotateRootCredentials\<close> returns the "not implemented" error for every input
  and returns the plugin's state, with its whole configuration (connection string, admin
  username and password, bucket, initialized flag), and the trace unchanged.
\<close>

theorem RotateRootCredentials_unsupported:
  "fst (RotateRootCredentials cb statements w) =
     Inl (Errorf ''root credential rotation is not currently implemented in couchbase'')
   \<and> fst (snd (RotateRootCredentials cb statements w)) = cb
   \<and> ConnectionString (connProducer (fst (snd (RotateRootCredentials cb statements w))))
       = ConnectionString (connProducer cb)
   \<and> Username (connProducer (fst (snd (RotateRootCredentials cb statements w))))
       = Username (connProducer cb)
   \<and> Password (connProducer (fst (snd (RotateRootCredentials cb statements w))))
       = Password (connProducer cb)
   \<and> Bucket (connProducer (fst (snd (RotateRootCredentials cb statements w))))
       = Bucket (connProducer cb)
   \<and> Initialized (connProducer (fst (snd (RotateRootCredentials cb statements w))))
       = Initialized (connProducer cb)
   \<and> snd (snd (RotateRootCredentials cb statements w)) = w"
  by (simp add: RotateRootCredentials_def)

section \<open>Creation statements\<close>

subsection \<open>An empty list of creation statements\<close>

text \<open>
  Claim C5, as amended.  The emptiness check is made on the list that the compatibility
  helper returns.  When that list is empty, \<open>CreateUser\<close> and \<open>SetCredentials\<close> fail with
  \<open>ErrEmptyCreationStatement\<close> before the connection is acquired: the plugin's state and
  the trace come back unchanged, so no connection, credential generation or upsert call
  has been made.  With the helper of the SDK that is the case exactly when the list of
  creation statements and the legacy creation string of the call are both empty.
\<close>

theorem empty_creation_rejected:
  "(Creation (StatementCompatibilityHelper L statements) = [] \<longrightarrow>
      CreateUser L E cb statements usernameConfig expiration w
        = (Inl ErrEmptyCreationStatement, cb, w)
      \<and> SetCredentials L E cb statements staticConfig w
        = (Inl ErrEmptyCreationStatement, cb, w))
   \<and> (StatementCompatibilityHelper L = sdk_StatementCompatibilityHelper
       \<and> Creation statements = [] \<and> CreationStatements statements = [] \<longrightarrow>
      CreateUser L E cb statements usernameConfig expiration w
        = (Inl ErrEmptyCreationStatement, cb, w)
      \<and> SetCredentials L E cb statements staticConfig w
        = (Inl ErrEmptyCreationStatement, cb, w))"
  by (simp add: CreateUser_def SetCredentials_def sdk_helper_Creation Let_def)

theorem empty_creation_rejected_witness:
  "CreateUser plain_lib (env_of all_ok) ready (creation_only []) test_user 0 []
       = (Inl ErrEmptyCreationStatement, ready, [])
   \<and> SetCredentials plain_lib (env_of all_ok) ready (creation_only []) static_user []
       = (Inl ErrEmptyCreationStatement, ready, [])
   \<and> CreateUser sdk_lib (env_of all_ok) ready (creation_only []) test_user 0 []
       = (Inl ErrEmptyCreationStatement, ready, [])
   \<and> SetCredentials sdk_lib (env_of all_ok) ready (creation_only []) static_user []
       = (Inl ErrEmptyCreationStatement, ready, [])"
proof -
  have h: "Creation (StatementCompatibilityHelper plain_lib (creation_only [])) = []"
    by (simp add: plain_lib_def creation_only_def)
  have k: "StatementCompatibilityHelper sdk_lib = sdk_StatementCompatibilityHelper
       \<and> Creation (creation_only []) = [] \<and> CreationStatements (creation_only []) = []"
    by (simp add: sdk_lib_def creation_only_def)
  from empty_creation_rejected [of plain_lib "creation_only []" "env_of all_ok" ready
         test_user 0 "[]" static_user] h
  have a: "CreateUser plain_lib (env_of all_ok) ready (creation_only []) test_user 0 []
       = (Inl ErrEmptyCreationStatement, ready, [])
   \<and> SetCredentials plain_lib (env_of all_ok) ready (creation_only []) static_user []
       = (Inl ErrEmptyCreationStatement, ready, [])" by blast
  from empty_creation_rejected [of sdk_lib "creation_only []" "env_of all_ok" ready
         test_user 0 "[]" static_user] k
  have b: "CreateUser sdk_lib (env_of all_ok) ready (creation_only []) test_user 0 []
       = (Inl ErrEmptyCreationStatement, ready, [])
   \<and> SetCredentials sdk_lib (env_of all_ok) ready (creation_only []) static_user []
       = (Inl ErrEmptyCreationStatement, ready, [])" by blast
  from a b show ?thesis by blast
qed

text \<open>
  Claim C5 as stated fails: a call whose list of creation statements is empty but whose
  legacy creation string is set is not refused.  The helper of the SDK turns the legacy
  string into the list, and \<open>SetCredentials\<close> and \<open>CreateUser\<close> connect and upsert the user.
\<close>

theorem empty_creation_list_counterexample:
  "Creation (legacy_only stmt_full_access) = []
   \<and> fst (SetCredentials sdk_lib (env_of all_ok) ready (legacy_only stmt_full_access)
            static_user [])
       = Inr (''test-user'', ''test-password'')
   \<and> snd (snd (SetCredentials sdk_lib (env_of all_ok) ready (legacy_only stmt_full_access)
                  static_user []))
       = [gocb_Connect ''couchbase://localhost'',
          Cluster_SetConnectTimeout 0 30,
          Cluster_SetServerConnectTimeout 0 30,
          Cluster_Authenticate 0 ''admin'' ''password'',
          Cluster_OpenBucket 0 ''Test'' [],
          Cluster_Manager 0 ''admin'' ''password'',
          Manager_UpsertUser
            \<lparr>mgr_cluster = 0, mgr_username = ''admin'', mgr_password = ''password''\<rparr>
            ''local'' ''test-user''
            \<lparr>settings_Name = ''test-user'', settings_Password = ''test-password'',
             settings_Roles = [\<lparr>gocb_Role = ''bucket_full_access'',
                                gocb_BucketName = ''Test''\<rparr>]\<rparr>]
   \<and> fst (CreateUser sdk_lib (env_of all_ok) ready (legacy_only stmt_full_access)
            test_user 0 [])
       = Inr (''v_token_reader_x7Jq2m_1600000000'', ''A1a-Zx81kq'')"
proof -
  have h: "Creation (StatementCompatibilityHelper sdk_lib (legacy_only stmt_full_access))
             = Creation (StatementCompatibilityHelper plain_lib (creation_only [stmt_full_access]))"
    by (simp add: sdk_lib_def plain_lib_def sdk_helper_Creation legacy_only_def
          creation_only_def stmt_full_access_def)
  have u: "json_Unmarshal sdk_lib = json_Unmarshal plain_lib"
    by (simp add: sdk_lib_def)
  have a: "Creation (legacy_only stmt_full_access) = []"
    by (simp add: legacy_only_def creation_only_def)
  show ?thesis
    unfolding SetCredentials_depends [OF h u] CreateUser_depends [OF h u]
    using a by (simp add: run_defs)
qed

subsection \<open>Only the first creation statement counts\<close>

text \<open>
  Claim C10.  \<open>CreateUser\<close> and \<open>SetCredentials\<close> read entry 0 of the list of creation
  statements and nothing else of the statements: for two statements values whose lists
  (as the compatibility helper returns them) are non-empty and agree on the first entry,
  the calls with the same other inputs, state and trace return the same result, the same
  state and the same trace of calls.
\<close>

theorem first_creation_statement_only:
  assumes "Creation (StatementCompatibilityHelper L s1) \<noteq> []"
    and "Creation (StatementCompatibilityHelper L s2) \<noteq> []"
    and "Creation (StatementCompatibilityHelper L s1) ! 0
           = Creation (StatementCompatibilityHelper L s2) ! 0"
  shows "CreateUser L E cb s1 usernameConfig expiration w
           = CreateUser L E cb s2 usernameConfig expiration w
         \<and> SetCredentials L E cb s1 staticConfig w
           = SetCredentials L E cb s2 staticConfig w"
  unfolding CreateUser_def SetCredentials_def Let_def assms(3) using assms(1,2) by simp

theorem first_creation_statement_only_witness:
  "CreateUser plain_lib (env_of all_ok) ready (creation_only [stmt_two_roles, ''x'']) test_user 0 []
     = CreateUser plain_lib (env_of all_ok) ready (creation_only [stmt_two_roles]) test_user 0 []
   \<and> SetCredentials plain_lib (env_of all_ok) ready (creation_only [stmt_two_roles, ''x'']) static_user []
     = SetCredentials plain_lib (env_of all_ok) ready (creation_only [stmt_two_roles]) static_user []
   \<and> fst (CreateUser plain_lib (env_of all_ok) ready (creation_only [stmt_two_roles, ''x'']) test_user 0 [])
     = Inr (''v_token_reader_x7Jq2m_1600000000'', ''A1a-Zx81kq'')"
proof -
  have a: "Creation (StatementCompatibilityHelper plain_lib (creation_only [stmt_two_roles, ''x''])) \<noteq> []"
    by (simp add: plain_lib_def creation_only_def)
  have b: "Creation (StatementCompatibilityHelper plain_lib (creation_only [stmt_two_roles])) \<noteq> []"
    by (simp add: plain_lib_def creation_only_def)
  have c: "Creation (StatementCompatibilityHelper plain_lib (creation_only [stmt_two_roles, ''x''])) ! 0
         = Creation (StatementCompatibilityHelper plain_lib (creation_only [stmt_two_roles])) ! 0"
    by (simp add: plain_lib_def creation_only_def)
  have d: "fst (CreateUser plain_lib (env_of all_ok) ready (creation_only [stmt_two_roles, ''x'']) test_user 0 [])
     = Inr (''v_token_reader_x7Jq2m_1600000000'', ''A1a-Zx81kq'')"
    by (simp add: run_defs)
  from first_creation_statement_only [OF a b c] d show ?thesis by blast
qed

subsection \<open>Statements that are rejected\<close>

text \<open>
  Claim C4, as amended.  Let the first creation statement fail to decode, or decode to a
  list of zero roles.  Then \<open>CreateUser\<close> and \<open>SetCredentials\<close> return an error and make
  no \<open>UpsertUser\<close> call and no other call that creates, replaces or removes an identity,
  whatever the state and the environment.  The statement is decoded last: the call runs
  the steps before \<open>upsertUser\<close> (the connection, and for \<open>CreateUser\<close> the two
  generators) and stops at the first that fails, returning that step's error, with the
  state and the trace that step left; when they all succeed the error is the wrapped
  decoding error, respectively the "at least one role" error, and the trace is the one
  those steps left.
\<close>

theorem rejected_statement_never_upserts:
  assumes ne: "Creation (StatementCompatibilityHelper L st) \<noteq> []"
    and bad: "json_Unmarshal L (Creation (StatementCompatibilityHelper L st) ! 0) = Inl e
              \<or> (json_Unmarshal L (Creation (StatementCompatibilityHelper L st) ! 0) = Inr cs
                  \<and> Roles cs = [])"
  shows "isl (fst (CreateUser L E cb st cfg ex w))
     \<and> filter is_upsert (snd (snd (CreateUser L E cb st cfg ex w))) = filter is_upsert w
     \<and> (CreateUser_reaches_upsert E cb cfg w \<longrightarrow>
         fst (CreateUser L E cb st cfg ex w) =
           Inl (case json_Unmarshal L (Creation (StatementCompatibilityHelper L st) ! 0) of
                  Inl e' \<Rightarrow> Wrap ''invalid creation statement'' e'
                | Inr cs' \<Rightarrow>
                    Errorf ''at least one role should be given in creation statement''))
     \<and> isl (fst (SetCredentials L E cb st sc w))
     \<and> filter is_upsert (snd (snd (SetCredentials L E cb st sc w))) = filter is_upsert w
     \<and> (SetCredentials_reaches_upsert E cb w \<longrightarrow>
         fst (SetCredentials L E cb st sc w) =
           Inl (case json_Unmarshal L (Creation (StatementCompatibilityHelper L st) ! 0) of
                  Inl e' \<Rightarrow> Wrap ''invalid creation statement'' e'
                | Inr cs' \<Rightarrow>
                    Errorf ''at least one role should be given in creation statement''))
     \<and> filter is_admin (snd (snd (CreateUser L E cb st cfg ex w))) = filter is_admin w
     \<and> filter is_admin (snd (snd (SetCredentials L E cb st sc w))) = filter is_admin w
     \<and> CreateUser L E cb st cfg ex w =
           (case Connection E (connProducer cb) w of
              (Inl err, c1, w1) \<Rightarrow> (Inl err, cb\<lparr>connProducer := c1\<rparr>, w1)
            | (Inr cl, c1, w1) \<Rightarrow>
               (case GenerateUsername E (credsProducer cb) cfg w1 of
                  (Inl err, w2) \<Rightarrow> (Inl err, cb\<lparr>connProducer := c1\<rparr>, w2)
                | (Inr username, w2) \<Rightarrow>
                   (case GeneratePassword E (credsProducer cb) w2 of
                      (Inl err, w3) \<Rightarrow> (Inl err, cb\<lparr>connProducer := c1\<rparr>, w3)
                    | (Inr password, w3) \<Rightarrow>
                       (Inl (case json_Unmarshal L
                                    (Creation (StatementCompatibilityHelper L st) ! 0) of
                               Inl e' \<Rightarrow> Wrap ''invalid creation statement'' e'
                             | Inr cs' \<Rightarrow>
                                 Errorf
                                   ''at least one role should be given in creation statement''),
                        cb\<lparr>connProducer := c1\<rparr>, w3))))
     \<and> SetCredentials L E cb st sc w =
           (case Connection E (connProducer cb) w of
              (Inl err, c1, w1) \<Rightarrow> (Inl err, cb\<lparr>connProducer := c1\<rparr>, w1)
            | (Inr cl, c1, w1) \<Rightarrow>
               (Inl (case json_Unmarshal L (Creation (StatementCompatibilityHelper L st) ! 0) of
                       Inl e' \<Rightarrow> Wrap ''invalid creation statement'' e'
                     | Inr cs' \<Rightarrow>
                         Errorf ''at least one role should be given in creation statement''),
                cb\<lparr>connProducer := c1\<rparr>, w1))"
proof (intro conjI impI)
  show "isl (fst (CreateUser L E cb st cfg ex w))"
    by (rule CreateUser_rejects(1) [OF ne bad])
  show "filter is_upsert (snd (snd (CreateUser L E cb st cfg ex w))) = filter is_upsert w"
    by (rule CreateUser_rejected_no_upsert [OF bad])
  show "isl (fst (SetCredentials L E cb st sc w))"
    by (rule SetCredentials_rejects(1) [OF ne bad])
  show "filter is_upsert (snd (snd (SetCredentials L E cb st sc w))) = filter is_upsert w"
    by (rule SetCredentials_rejected_no_upsert [OF bad])
  show "filter is_admin (snd (snd (CreateUser L E cb st cfg ex w))) = filter is_admin w"
    by (rule CreateUser_rejected_no_admin [OF ne bad])
  show "filter is_admin (snd (snd (SetCredentials L E cb st sc w))) = filter is_admin w"
    by (rule SetCredentials_rejected_no_admin [OF ne bad])
  show "CreateUser L E cb st cfg ex w =
           (case Connection E (connProducer cb) w of
              (Inl err, c1, w1) \<Rightarrow> (Inl err, cb\<lparr>connProducer := c1\<rparr>, w1)
            | (Inr cl, c1, w1) \<Rightarrow>
               (case GenerateUsername E (credsProducer cb) cfg w1 of
                  (Inl err, w2) \<Rightarrow> (Inl err, cb\<lparr>connProducer := c1\<rparr>, w2)
                | (Inr username, w2) \<Rightarrow>
                   (case GeneratePassword E (credsProducer cb) w2 of
                      (Inl err, w3) \<Rightarrow> (Inl err, cb\<lparr>connProducer := c1\<rparr>, w3)
                    | (Inr password, w3) \<Rightarrow>
                       (Inl (case json_Unmarshal L
                                    (Creation (StatementCompatibilityHelper L st) ! 0) of
                               Inl e' \<Rightarrow> Wrap ''invalid creation statement'' e'
                             | Inr cs' \<Rightarrow>
                                 Errorf
                                   ''at least one role should be given in creation statement''),
                        cb\<lparr>connProducer := c1\<rparr>, w3))))"
    by (rule CreateUser_rejected_exact [OF ne bad])
  show "SetCredentials L E cb st sc w =
           (case Connection E (connProducer cb) w of
              (Inl err, c1, w1) \<Rightarrow> (Inl err, cb\<lparr>connProducer := c1\<rparr>, w1)
            | (Inr cl, c1, w1) \<Rightarrow>
               (Inl (case json_Unmarshal L (Creation (StatementCompatibilityHelper L st) ! 0) of
                       Inl e' \<Rightarrow> Wrap ''invalid creation statement'' e'
                     | Inr cs' \<Rightarrow>
                         Errorf ''at least one role should be given in creation statement''),
                cb\<lparr>connProducer := c1\<rparr>, w1))"
    by (rule SetCredentials_rejected_exact [OF ne bad])
next
  assume "CreateUser_reaches_upsert E cb cfg w"
  then show "fst (CreateUser L E cb st cfg ex w) =
           Inl (case json_Unmarshal L (Creation (StatementCompatibilityHelper L st) ! 0) of
                  Inl e' \<Rightarrow> Wrap ''invalid creation statement'' e'
                | Inr cs' \<Rightarrow>
                    Errorf ''at least one role should be given in creation statement'')"
    by (rule CreateUser_rejects(2) [OF ne bad])
next
  assume "SetCredentials_reaches_upsert E cb w"
  then show "fst (SetCredentials L E cb st sc w) =
           Inl (case json_Unmarshal L (Creation (StatementCompatibilityHelper L st) ! 0) of
                  Inl e' \<Rightarrow> Wrap ''invalid creation statement'' e'
                | Inr cs' \<Rightarrow>
                    Errorf ''at least one role should be given in creation statement'')"
    by (rule SetCredentials_rejects(2) [OF ne bad])
qed

theorem rejected_statement_never_upserts_witness:
  "fst (CreateUser plain_lib (env_of all_ok) ready (creation_only [''{'']) test_user 0 [])
     = Inl (Wrap ''invalid creation statement'' (LibError ''invalid character''))
   \<and> filter is_upsert
       (snd (snd (CreateUser plain_lib (env_of all_ok) ready (creation_only [''{'']) test_user 0 [])))
     = []
   \<and> fst (SetCredentials plain_lib (env_of all_ok) ready (creation_only [stmt_no_roles]) static_user [])
     = Inl (Errorf ''at least one role should be given in creation statement'')
   \<and> filter is_upsert
       (snd (snd (SetCredentials plain_lib (env_of all_ok) ready (creation_only [stmt_no_roles])
                    static_user [])))
     = []"
proof -
  have ne1: "Creation (StatementCompatibilityHelper plain_lib (creation_only [''{''])) \<noteq> []"
    by (simp add: run_defs)
  have bad1:
    "json_Unmarshal plain_lib
        (Creation (StatementCompatibilityHelper plain_lib (creation_only [''{''])) ! 0)
       = Inl (LibError ''invalid character'')
     \<or> (json_Unmarshal plain_lib
          (Creation (StatementCompatibilityHelper plain_lib (creation_only [''{''])) ! 0)
          = Inr \<lparr>Roles = []\<rparr>
        \<and> Roles \<lparr>Roles = []\<rparr> = [])"
    by (simp add: run_defs)
  have r1: "CreateUser_reaches_upsert (env_of all_ok) ready test_user []"
    by (simp add: run_defs)
  have ne2: "Creation (StatementCompatibilityHelper plain_lib (creation_only [stmt_no_roles])) \<noteq> []"
    by (simp add: run_defs)
  have bad2:
    "json_Unmarshal plain_lib
        (Creation (StatementCompatibilityHelper plain_lib (creation_only [stmt_no_roles])) ! 0)
       = Inl (LibError ''invalid character'')
     \<or> (json_Unmarshal plain_lib
          (Creation (StatementCompatibilityHelper plain_lib (creation_only [stmt_no_roles])) ! 0)
          = Inr \<lparr>Roles = []\<rparr>
        \<and> Roles \<lparr>Roles = []\<rparr> = [])"
    by (simp add: run_defs)
  have r2: "SetCredentials_reaches_upsert (env_of all_ok) ready []"
    by (simp add: run_defs)
  have u1: "json_Unmarshal plain_lib
        (Creation (StatementCompatibilityHelper plain_lib (creation_only [''{''])) ! 0)
       = Inl (LibError ''invalid character'')"
    by (simp add: run_defs)
  have u2: "json_Unmarshal plain_lib
        (Creation (StatementCompatibilityHelper plain_lib (creation_only [stmt_no_roles])) ! 0)
       = Inr \<lparr>Roles = []\<rparr>"
    by (simp add: run_defs)
  note t1 = rejected_statement_never_upserts [OF ne1 bad1, where E = "env_of all_ok"
      and cb = ready and cfg = test_user and ex = 0 and w = "[]" and sc = static_user]
  note t2 = rejected_statement_never_upserts [OF ne2 bad2, where E = "env_of all_ok"
      and cb = ready and cfg = test_user and ex = 0 and w = "[]" and sc = static_user]
  from t1 have a: "filter is_upsert
       (snd (snd (CreateUser plain_lib (env_of all_ok) ready (creation_only [''{'']) test_user 0 [])))
     = filter is_upsert []" by blast
  from t1 r1 have "fst (CreateUser plain_lib (env_of all_ok) ready (creation_only [''{''])
                      test_user 0 []) =
      Inl (case json_Unmarshal plain_lib
                  (Creation (StatementCompatibilityHelper plain_lib (creation_only [''{''])) ! 0) of
             Inl e' \<Rightarrow> Wrap ''invalid creation statement'' e'
           | Inr cs' \<Rightarrow> Errorf ''at least one role should be given in creation statement'')"
    by blast
  then have b: "fst (CreateUser plain_lib (env_of all_ok) ready (creation_only [''{''])
                      test_user 0 [])
      = Inl (Wrap ''invalid creation statement'' (LibError ''invalid character''))"
    unfolding u1 by simp
  from t2 have c: "filter is_upsert
       (snd (snd (SetCredentials plain_lib (env_of all_ok) ready (creation_only [stmt_no_roles])
                    static_user [])))
     = filter is_upsert []" by blast
  from t2 r2 have "fst (SetCredentials plain_lib (env_of all_ok) ready
                      (creation_only [stmt_no_roles]) static_user []) =
      Inl (case json_Unmarshal plain_lib
                  (Creation (StatementCompatibilityHelper plain_lib
                               (creation_only [stmt_no_roles])) ! 0) of
             Inl e' \<Rightarrow> Wrap ''invalid creation statement'' e'
           | Inr cs' \<Rightarrow> Errorf ''at least one role should be given in creation statement'')"
    by blast
  then have d: "fst (SetCredentials plain_lib (env_of all_ok) ready
                      (creation_only [stmt_no_roles]) static_user [])
      = Inl (Errorf ''at least one role should be given in creation statement'')"
    unfolding u2 by simp
  from a b c d show ?thesis by simp
qed

text \<open>
  Claim C4 as stated fails: on a plugin that has not been initialized, and on one whose
  cluster refuses the connection, a malformed statement and a statement without roles
  are answered with the error of the connection step, which is neither the statement
  decoding error nor the "at least one role" error.
\<close>

theorem rejected_statement_error_counterexample:
  "json_Unmarshal plain_lib ''{'' = Inl (LibError ''invalid character'')
   \<and> fst (CreateUser plain_lib (env_of all_ok) new (creation_only [''{'']) test_user 0 [])
       = Inl ErrNotInitialized
   \<and> fst (SetCredentials plain_lib (env_of all_ok) new (creation_only [''{'']) static_user [])
       = Inl ErrNotInitialized
   \<and> json_Unmarshal plain_lib stmt_no_roles = Inr \<lparr>Roles = []\<rparr>
   \<and> fst (CreateUser plain_lib (env_of connect_refused) ready (creation_only [stmt_no_roles])
            test_user 0 [])
       = Inl (LibError ''connection refused'')
   \<and> fst (SetCredentials plain_lib (env_of connect_refused) ready (creation_only [stmt_no_roles])
            static_user [])
       = Inl (LibError ''connection refused'')"
  by (simp add: run_defs)

subsection \<open>The roles handed to the cluster\<close>



section \<open>The connection producer\<close>

subsection \<open>Acquiring the connection\<close>

text \<open>
  Claim C1, as amended.  On an initialized producer every \<open>Connection\<close> call opens a new
  connection: the first call it adds to the trace is \<open>gocb.Connect\<close> with the configured
  connection string, and neither its result nor its calls depend on what is cached in
  \<open>cluster\<close> and \<open>clusterManager\<close>.  On success it has made the six calls of a full
  connection on the new cluster, and the new cluster and the manager derived from it are
  stored in the producer, replacing what was cached, while nothing else of the producer
  changes; on failure the producer is left as it was.  The stored manager is the one the
  administrative call that follows under the same lock goes through: the \<open>RemoveUser\<close>
  call of \<open>RevokeUser\<close>, and every \<open>UpsertUser\<close> call of \<open>CreateUser\<close> and
  \<open>SetCredentials\<close>, is made on the manager of the connection that this very operation
  has opened, in the domain \<open>local\<close>.
\<close>

theorem Connection_always_connects:
  assumes "Initialized c"
  shows "(\<exists>rest. snd (snd (Connection E c w)) = w @ gocb_Connect (ConnectionString c) # rest)
     \<and> fst (Connection E (c\<lparr>cluster := x, clusterManager := y\<rparr>) w) = fst (Connection E c w)
     \<and> snd (snd (Connection E (c\<lparr>cluster := x, clusterManager := y\<rparr>) w))
         = snd (snd (Connection E c w))
     \<and> (\<forall>cl. fst (Connection E c w) = Inr cl \<longrightarrow>
           cl = length w
           \<and> fst (snd (Connection E c w)) =
               c\<lparr>cluster := Some cl,
                 clusterManager := Some \<lparr>mgr_cluster = cl, mgr_username = Username c,
                                         mgr_password = Password c\<rparr>\<rparr>
           \<and> snd (snd (Connection E c w)) =
               w @ [gocb_Connect (ConnectionString c),
                    Cluster_SetConnectTimeout cl 30,
                    Cluster_SetServerConnectTimeout cl 30,
                    Cluster_Authenticate cl (Username c) (Password c),
                    Cluster_OpenBucket cl (Bucket c) [],
                    Cluster_Manager cl (Username c) (Password c)])
     \<and> (isl (fst (Connection E c w)) \<longrightarrow> fst (snd (Connection E c w)) = c)
     \<and> (\<forall>cb cl st u. connProducer cb = c \<and> fst (Connection E c w) = Inr cl \<longrightarrow>
           snd (snd (RevokeUser E cb st u w)) =
             snd (snd (Connection E c w))
               @ [Manager_RemoveUser
                    \<lparr>mgr_cluster = cl, mgr_username = Username c, mgr_password = Password c\<rparr>
                    authDomain u])
     \<and> (\<forall>L cb st cfg ex sc m d u s.
           connProducer cb = c
           \<and> (Manager_UpsertUser m d u s
                 \<in> set (drop (length w) (snd (snd (CreateUser L E cb st cfg ex w))))
              \<or> Manager_UpsertUser m d u s
                 \<in> set (drop (length w) (snd (snd (SetCredentials L E cb st sc w)))))
           \<longrightarrow> m = \<lparr>mgr_cluster = length w, mgr_username = Username c,
                      mgr_password = Password c\<rparr>
               \<and> d = authDomain)"
proof (intro conjI allI impI)
  show "\<exists>rest. snd (snd (Connection E c w)) = w @ gocb_Connect (ConnectionString c) # rest"
    by (rule Connection_connects [OF assms])
  show "fst (Connection E (c\<lparr>cluster := x, clusterManager := y\<rparr>) w) = fst (Connection E c w)"
    and "snd (snd (Connection E (c\<lparr>cluster := x, clusterManager := y\<rparr>) w))
           = snd (snd (Connection E c w))"
    by (simp_all add: Connection_ignores_cache)
  show "fst (snd (Connection E c w)) = c" if "isl (fst (Connection E c w))"
    using that by (rule Connection_failure_keeps)
next
  fix cl
  assume ok: "fst (Connection E c w) = Inr cl"
  from Connection_success [OF ok]
  show "cl = length w"
    and "fst (snd (Connection E c w)) =
           c\<lparr>cluster := Some cl,
             clusterManager := Some \<lparr>mgr_cluster = cl, mgr_username = Username c,
                                     mgr_password = Password c\<rparr>\<rparr>"
    by simp_all
  show "snd (snd (Connection E c w)) =
               w @ [gocb_Connect (ConnectionString c),
                    Cluster_SetConnectTimeout cl 30,
                    Cluster_SetServerConnectTimeout cl 30,
                    Cluster_Authenticate cl (Username c) (Password c),
                    Cluster_OpenBucket cl (Bucket c) [],
                    Cluster_Manager cl (Username c) (Password c)]"
    by (rule Connection_success_trace [OF ok])
next
  fix cb :: Couchbase and cl :: Cluster and st :: Statements and u :: string
  assume "connProducer cb = c \<and> fst (Connection E c w) = Inr cl"
  then show "snd (snd (RevokeUser E cb st u w)) =
             snd (snd (Connection E c w))
               @ [Manager_RemoveUser
                    \<lparr>mgr_cluster = cl, mgr_username = Username c, mgr_password = Password c\<rparr>
                    authDomain u]"
    using RevokeUser_uses_new_manager [where E = E and cb = cb and w = w and cl = cl] by auto
next
  fix L :: lib and cb :: Couchbase and st :: Statements and cfg :: UsernameConfig
    and ex :: int and sc :: StaticUserConfig and m :: ClusterManager and d u :: string
    and s :: UserSettings
  assume h: "connProducer cb = c
           \<and> (Manager_UpsertUser m d u s
                 \<in> set (drop (length w) (snd (snd (CreateUser L E cb st cfg ex w))))
              \<or> Manager_UpsertUser m d u s
                 \<in> set (drop (length w) (snd (snd (SetCredentials L E cb st sc w)))))"
  then have cb: "connProducer cb = c" by simp
  from h have "m = \<lparr>mgr_cluster = length w, mgr_username = Username (connProducer cb),
              mgr_password = Password (connProducer cb)\<rparr> \<and> d = authDomain"
    using CreateUser_upserts_through_new_manager [of m d u s w L E cb st cfg ex]
      SetCredentials_upserts_through_new_manager [of m d u s w L E cb st sc]
    by blast
  with cb show "m = \<lparr>mgr_cluster = length w, mgr_username = Username c,
                      mgr_password = Password c\<rparr>"
    and "d = authDomain" by simp_all
qed

theorem Connection_always_connects_witness:
  "(\<exists>rest. snd (snd (Connection (env_of all_ok) (fst (connected (env_of all_ok)))
                       (snd (connected (env_of all_ok)))))
             = snd (connected (env_of all_ok)) @ gocb_Connect ''couchbase://localhost'' # rest)
   \<and> cluster (fst (snd (Connection (env_of all_ok) (fst (connected (env_of all_ok)))
                          (snd (connected (env_of all_ok))))))
       = Some 6
   \<and> fst (snd (Connection (env_of connect_refused) (fst (connected (env_of all_ok)))
                  (snd (connected (env_of all_ok)))))
       = fst (connected (env_of all_ok))
   \<and> Manager_UpsertUser
        \<lparr>mgr_cluster = 6, mgr_username = ''admin'', mgr_password = ''password''\<rparr>
        ''local'' ''test-user''
        \<lparr>settings_Name = ''test-user'', settings_Password = ''test-password'',
         settings_Roles = [\<lparr>gocb_Role = ''bucket_full_access'', gocb_BucketName = ''Test''\<rparr>]\<rparr>
       \<in> set (drop (length (snd (connected (env_of all_ok))))
            (snd (snd (SetCredentials plain_lib (env_of all_ok)
                         (ready\<lparr>connProducer := fst (connected (env_of all_ok))\<rparr>)
                         (creation_only [stmt_full_access]) static_user
                         (snd (connected (env_of all_ok)))))))
   \<and> \<lparr>mgr_cluster = 6, mgr_username = ''admin'', mgr_password = ''password''\<rparr>
       = \<lparr>mgr_cluster = length (snd (connected (env_of all_ok))),
          mgr_username = Username (fst (connected (env_of all_ok))),
          mgr_password = Password (fst (connected (env_of all_ok)))\<rparr>"
proof -
  let ?E = "env_of all_ok"
  let ?c = "fst (connected ?E)"
  let ?w = "snd (connected ?E)"
  let ?m = "\<lparr>mgr_cluster = 6, mgr_username = ''admin'', mgr_password = ''password''\<rparr>"
  let ?s = "\<lparr>settings_Name = ''test-user'', settings_Password = ''test-password'',
         settings_Roles = [\<lparr>gocb_Role = ''bucket_full_access'', gocb_BucketName = ''Test''\<rparr>]\<rparr>"
  let ?cb = "ready\<lparr>connProducer := ?c\<rparr>"
  have ini: "Initialized ?c" by (simp add: run_defs)
  have cs: "ConnectionString ?c = ''couchbase://localhost''" by (simp add: run_defs)
  have ok: "fst (Connection ?E ?c ?w) = Inr 6" by (simp add: run_defs)
  have ko: "isl (fst (Connection (env_of connect_refused) ?c ?w))" by (simp add: run_defs)
  have cb: "connProducer ?cb = ?c" by simp
  have mem: "Manager_UpsertUser ?m ''local'' ''test-user'' ?s
       \<in> set (drop (length ?w)
            (snd (snd (SetCredentials plain_lib ?E ?cb (creation_only [stmt_full_access])
                         static_user ?w))))"
    by (simp add: run_defs)
  from Connection_always_connects [OF ini, of ?E ?w] cs
  have "\<exists>rest. snd (snd (Connection ?E ?c ?w)) = ?w @ gocb_Connect ''couchbase://localhost'' # rest"
    by simp
  moreover from Connection_always_connects [OF ini, of ?E ?w] ok
  have "fst (snd (Connection ?E ?c ?w)) =
          ?c\<lparr>cluster := Some 6,
             clusterManager := Some \<lparr>mgr_cluster = 6, mgr_username = Username ?c,
                                     mgr_password = Password ?c\<rparr>\<rparr>"
    by blast
  then have "cluster (fst (snd (Connection ?E ?c ?w))) = Some 6" by simp
  moreover from Connection_always_connects [OF ini, of "env_of connect_refused" ?w] ko
  have "fst (snd (Connection (env_of connect_refused) ?c ?w)) = ?c" by blast
  moreover from Connection_always_connects [OF ini, of ?E ?w] cb mem
  have "?m = \<lparr>mgr_cluster = length ?w, mgr_username = Username ?c,
               mgr_password = Password ?c\<rparr>"
    by blast
  ultimately show ?thesis using mem by blast
qed

text \<open>
  Claim C1 as stated fails: after a successful \<open>Connection\<close> has cached cluster 0, the next
  \<open>Connection\<close> on the same producer does not hand out the cached cluster; it connects a
  second time and returns the new cluster 6, so the trace holds two \<open>gocb.Connect\<close> calls.
\<close>

theorem Connection_reuse_counterexample:
  "Initialized (fst (connected (env_of all_ok)))
   \<and> cluster (fst (connected (env_of all_ok))) = Some 0
   \<and> fst (Connection (env_of all_ok) (fst (connected (env_of all_ok)))
            (snd (connected (env_of all_ok))))
       = Inr 6
   \<and> filter is_connect (snd (connected (env_of all_ok)))
       = [gocb_Connect ''couchbase://localhost'']
   \<and> filter is_connect
        (snd (snd (Connection (env_of all_ok) (fst (connected (env_of all_ok)))
                     (snd (connected (env_of all_ok))))))
       = [gocb_Connect ''couchbase://localhost'', gocb_Connect ''couchbase://localhost'']"
  by (simp add: run_defs)

subsection \<open>Initialization\<close>

text \<open>
  Claim C2, as amended.  Let \<open>c1\<close> be the producer after the configuration has been decoded
  into it and \<open>d\<close> the decoder's error, if any.  When decoding fails, \<open>Init\<close> returns the
  decoder's error; when the connection string, the username or the password of \<open>c1\<close> is
  empty, it returns the error that names the first empty one.  In these cases it makes no
  call to the outside and leaves the producer, and with it the initialized flag, exactly
  as decoding left it: \<open>Init\<close> itself does not assign the flag on a rejected call.  When
  decoding succeeds and the three fields are non-empty the flag is set, before any
  verification.  Without verification the call then succeeds and returns the
  configuration.  With verification it runs \<open>Connection\<close> on the producer with the flag
  set: if that succeeds the call succeeds, and if that fails the call returns the
  connection error wrapped, with the producer as it was before the connection attempt,
  flag set.  So the flag is true after every call that passes the checks, whether the
  call succeeds or not, and after every call that succeeds.
\<close>

theorem Init_sets_flag_after_checks:
  assumes dec: "WeakDecode L conf (c\<lparr>RawConfig := conf\<rparr>) = (c1, d)"
    and run: "Init L E c conf verifyConnection w = (r, c', w')"
  shows "(d \<noteq> None \<or> ConnectionString c1 = [] \<or> Username c1 = [] \<or> Password c1 = []
            \<longrightarrow> isl r \<and> c' = c1 \<and> w' = w)
     \<and> (d = None \<and> ConnectionString c1 \<noteq> [] \<and> Username c1 \<noteq> [] \<and> Password c1 \<noteq> []
            \<longrightarrow> Initialized c'
              \<and> (isl r \<longrightarrow> verifyConnection \<and>
                   (\<exists>e. r = Inl (Wrap ''error verifying connection: {{err}}'' e)
                       \<and> fst (Connection E (c1\<lparr>Initialized := True\<rparr>) w) = Inl e)))
     \<and> (\<not> isl r \<longrightarrow> Initialized c' \<and> r = Inr conf)
     \<and> (\<forall>e. d = Some e \<longrightarrow> r = Inl e)
     \<and> (d = None \<and> ConnectionString c1 = []
            \<longrightarrow> r = Inl (Errorf ''connection_string cannot be empty''))
     \<and> (d = None \<and> ConnectionString c1 \<noteq> [] \<and> Username c1 = []
            \<longrightarrow> r = Inl (Errorf ''username cannot be empty''))
     \<and> (d = None \<and> ConnectionString c1 \<noteq> [] \<and> Username c1 \<noteq> [] \<and> Password c1 = []
            \<longrightarrow> r = Inl (Errorf ''password cannot be empty''))
     \<and> (d \<noteq> None \<or> ConnectionString c1 = [] \<or> Username c1 = [] \<or> Password c1 = []
            \<longrightarrow> Initialized c' = Initialized c1)
     \<and> (d = None \<and> ConnectionString c1 \<noteq> [] \<and> Username c1 \<noteq> [] \<and> Password c1 \<noteq> []
          \<and> \<not> verifyConnection
            \<longrightarrow> r = Inr conf \<and> c' = c1\<lparr>Initialized := True\<rparr> \<and> w' = w)
     \<and> (d = None \<and> ConnectionString c1 \<noteq> [] \<and> Username c1 \<noteq> [] \<and> Password c1 \<noteq> []
          \<and> verifyConnection
            \<longrightarrow> c' = fst (snd (Connection E (c1\<lparr>Initialized := True\<rparr>) w))
              \<and> w' = snd (snd (Connection E (c1\<lparr>Initialized := True\<rparr>) w))
              \<and> (\<forall>e. fst (Connection E (c1\<lparr>Initialized := True\<rparr>) w) = Inl e \<longrightarrow>
                    r = Inl (Wrap ''error verifying connection: {{err}}'' e)
                    \<and> c' = c1\<lparr>Initialized := True\<rparr>)
              \<and> (\<forall>cl. fst (Connection E (c1\<lparr>Initialized := True\<rparr>) w) = Inr cl \<longrightarrow>
                    r = Inr conf))"
proof -
  have old: "(d \<noteq> None \<or> ConnectionString c1 = [] \<or> Username c1 = [] \<or> Password c1 = []
            \<longrightarrow> isl r \<and> c' = c1 \<and> w' = w)
     \<and> (d = None \<and> ConnectionString c1 \<noteq> [] \<and> Username c1 \<noteq> [] \<and> Password c1 \<noteq> []
            \<longrightarrow> Initialized c'
              \<and> (isl r \<longrightarrow> verifyConnection \<and>
                   (\<exists>e. r = Inl (Wrap ''error verifying connection: {{err}}'' e)
                       \<and> fst (Connection E (c1\<lparr>Initialized := True\<rparr>) w) = Inl e)))
     \<and> (\<not> isl r \<longrightarrow> Initialized c' \<and> r = Inr conf)"
  proof (intro conjI impI)
    assume "d \<noteq> None \<or> ConnectionString c1 = [] \<or> Username c1 = [] \<or> Password c1 = []"
    from Init_rejects [OF dec run this] show "isl r" and "c' = c1" and "w' = w" by simp_all
  next
    assume good: "d = None \<and> ConnectionString c1 \<noteq> [] \<and> Username c1 \<noteq> [] \<and> Password c1 \<noteq> []"
    show "Initialized c'" by (rule Init_passes(1) [OF dec run good])
    show "verifyConnection" if "isl r" using Init_passes(2) [OF dec run good that] by simp
    show "\<exists>e. r = Inl (Wrap ''error verifying connection: {{err}}'' e)
              \<and> fst (Connection E (c1\<lparr>Initialized := True\<rparr>) w) = Inl e" if "isl r"
      using Init_passes(2) [OF dec run good that] by simp
  next
    assume ok: "\<not> isl r"
    have good: "d = None \<and> ConnectionString c1 \<noteq> [] \<and> Username c1 \<noteq> [] \<and> Password c1 \<noteq> []"
      using Init_rejects [OF dec run] ok by blast
    show "Initialized c'" by (rule Init_passes(1) [OF dec run good])
    show "r = Inr conf" by (rule Init_passes(3) [OF dec run good ok])
  qed
  have ex: "WeakDecode L conf (c\<lparr>RawConfig := conf\<rparr>) = (c1, None)" if "d = None"
    using dec that by simp
  have e1: "\<forall>e. d = Some e \<longrightarrow> r = Inl e"
    using Init_decode_error [where L = L and conf = conf and c = c and ?c1.0 = c1 and E = E
        and verifyConnection = verifyConnection and w = w] dec run by auto
  have e2: "d = None \<and> ConnectionString c1 = []
            \<longrightarrow> r = Inl (Errorf ''connection_string cannot be empty'')"
    using Init_exact(1) [OF ex, where E = E and verifyConnection = verifyConnection and w = w]
      run by auto
  have e3: "d = None \<and> ConnectionString c1 \<noteq> [] \<and> Username c1 = []
            \<longrightarrow> r = Inl (Errorf ''username cannot be empty'')"
    using Init_exact(2) [OF ex, where E = E and verifyConnection = verifyConnection and w = w]
      run by auto
  have e4: "d = None \<and> ConnectionString c1 \<noteq> [] \<and> Username c1 \<noteq> [] \<and> Password c1 = []
            \<longrightarrow> r = Inl (Errorf ''password cannot be empty'')"
    using Init_exact(3) [OF ex, where E = E and verifyConnection = verifyConnection and w = w]
      run by auto
  have e5: "d \<noteq> None \<or> ConnectionString c1 = [] \<or> Username c1 = [] \<or> Password c1 = []
            \<longrightarrow> Initialized c' = Initialized c1"
    using old by blast
  have e6: "d = None \<and> ConnectionString c1 \<noteq> [] \<and> Username c1 \<noteq> [] \<and> Password c1 \<noteq> []
          \<and> \<not> verifyConnection
            \<longrightarrow> r = Inr conf \<and> c' = c1\<lparr>Initialized := True\<rparr> \<and> w' = w"
    using Init_exact(4) [OF ex, where E = E and verifyConnection = verifyConnection and w = w]
      run by auto
  have e7: "d = None \<and> ConnectionString c1 \<noteq> [] \<and> Username c1 \<noteq> [] \<and> Password c1 \<noteq> []
          \<and> verifyConnection
            \<longrightarrow> c' = fst (snd (Connection E (c1\<lparr>Initialized := True\<rparr>) w))
              \<and> w' = snd (snd (Connection E (c1\<lparr>Initialized := True\<rparr>) w))
              \<and> (\<forall>e. fst (Connection E (c1\<lparr>Initialized := True\<rparr>) w) = Inl e \<longrightarrow>
                    r = Inl (Wrap ''error verifying connection: {{err}}'' e)
                    \<and> c' = c1\<lparr>Initialized := True\<rparr>)
              \<and> (\<forall>cl. fst (Connection E (c1\<lparr>Initialized := True\<rparr>) w) = Inr cl \<longrightarrow>
                    r = Inr conf)"
  proof (intro impI)
    assume g: "d = None \<and> ConnectionString c1 \<noteq> [] \<and> Username c1 \<noteq> [] \<and> Password c1 \<noteq> []
          \<and> verifyConnection"
    let ?C = "Connection E (c1\<lparr>Initialized := True\<rparr>) w"
    from g dec have dec': "WeakDecode L conf (c\<lparr>RawConfig := conf\<rparr>) = (c1, None)" by simp
    from Init_exact(5) [OF dec', where E = E and verifyConnection = verifyConnection and w = w]
      g run
    have eq: "(r, c', w') =
             (case fst ?C of
                Inl err \<Rightarrow> Inl (Wrap ''error verifying connection: {{err}}'' err)
              | Inr cl \<Rightarrow> Inr conf, fst (snd ?C), snd (snd ?C))" by simp
    then have a: "c' = fst (snd ?C)" and b: "w' = snd (snd ?C)"
      and r: "r = (case fst ?C of
                Inl err \<Rightarrow> Inl (Wrap ''error verifying connection: {{err}}'' err)
              | Inr cl \<Rightarrow> Inr conf)" by (auto simp: prod_eq_iff)
    have keep: "fst (snd ?C) = c1\<lparr>Initialized := True\<rparr>" if "fst ?C = Inl e" for e
      using Connection_failure_keeps [of E "c1\<lparr>Initialized := True\<rparr>" w] that by simp
    from a b r keep show "c' = fst (snd ?C) \<and> w' = snd (snd ?C)
              \<and> (\<forall>e. fst ?C = Inl e \<longrightarrow>
                    r = Inl (Wrap ''error verifying connection: {{err}}'' e)
                    \<and> c' = c1\<lparr>Initialized := True\<rparr>)
              \<and> (\<forall>cl. fst ?C = Inr cl \<longrightarrow> r = Inr conf)"
      by simp
  qed
  from old e1 e2 e3 e4 e5 e6 e7 show ?thesis by blast
qed

theorem Init_sets_flag_after_checks_witness:
  "isl (fst (Init plain_lib (env_of all_ok) (connProducer new) Map.empty False []))
   \<and> \<not> Initialized
         (fst (snd (Init plain_lib (env_of all_ok) (connProducer new) Map.empty False [])))
   \<and> fst (Init plain_lib (env_of all_ok) (connProducer new) test_conf True []) = Inr test_conf
   \<and> Initialized
        (fst (snd (Init plain_lib (env_of all_ok) (connProducer new) test_conf True [])))
   \<and> fst (Init plain_lib (env_of connect_refused) (connProducer new) test_conf True [])
       = Inl (Wrap ''error verifying connection: {{err}}'' (LibError ''connection refused''))
   \<and> Initialized
        (fst (snd (Init plain_lib (env_of connect_refused) (connProducer new) test_conf True [])))"
proof -
  let ?c = "connProducer new"
  let ?d0 = "WeakDecode plain_lib Map.empty (?c\<lparr>RawConfig := Map.empty\<rparr>)"
  let ?d1 = "WeakDecode plain_lib test_conf (?c\<lparr>RawConfig := test_conf\<rparr>)"
  let ?i0 = "Init plain_lib (env_of all_ok) ?c Map.empty False []"
  let ?i1 = "Init plain_lib (env_of all_ok) ?c test_conf True []"
  let ?i2 = "Init plain_lib (env_of connect_refused) ?c test_conf True []"
  have dec0: "?d0 = (fst ?d0, snd ?d0)" and dec1: "?d1 = (fst ?d1, snd ?d1)" by simp_all
  have run0: "?i0 = (fst ?i0, fst (snd ?i0), snd (snd ?i0))"
    and run1: "?i1 = (fst ?i1, fst (snd ?i1), snd (snd ?i1))"
    and run2: "?i2 = (fst ?i2, fst (snd ?i2), snd (snd ?i2))" by simp_all
  have bad0: "ConnectionString (fst ?d0) = []" and flag0: "\<not> Initialized (fst ?d0)"
    by (simp_all add: run_defs)
  have good1: "snd ?d1 = None \<and> ConnectionString (fst ?d1) \<noteq> [] \<and> Username (fst ?d1) \<noteq> []
      \<and> Password (fst ?d1) \<noteq> []"
    by (simp add: run_defs)
  have ok1: "\<not> isl (fst ?i1)" by (simp add: run_defs)
  have ko2: "fst (Connection (env_of connect_refused) ((fst ?d1)\<lparr>Initialized := True\<rparr>) [])
               = Inl (LibError ''connection refused'')"
    by (simp add: run_defs)
  from Init_sets_flag_after_checks [OF dec0 run0] bad0
  have "isl (fst ?i0)" and "fst (snd ?i0) = fst ?d0" by blast+
  with flag0 have a: "isl (fst ?i0) \<and> \<not> Initialized (fst (snd ?i0))" by simp
  from Init_sets_flag_after_checks [OF dec1 run1] ok1
  have b: "fst ?i1 = Inr test_conf \<and> Initialized (fst (snd ?i1))" by blast
  from Init_sets_flag_after_checks [OF dec1 run2] good1
  have c: "Initialized (fst (snd ?i2))" by blast
  from Init_sets_flag_after_checks [OF dec1 run2] good1 ko2
  have d: "fst ?i2
       = Inl (Wrap ''error verifying connection: {{err}}'' (LibError ''connection refused''))"
    by blast
  from a b c d show ?thesis by blast
qed

text \<open>
  Claim C2 as stated fails: with a valid configuration, verification requested and a
  cluster that refuses the connection, \<open>Init\<close> on a fresh producer returns the wrapped
  connection error and has set the initialized flag, which was false, to true.
\<close>

theorem Init_flag_on_error_counterexample:
  "\<not> Initialized (connProducer new)
   \<and> fst (Init plain_lib (env_of connect_refused) (connProducer new) test_conf True [])
       = Inl (Wrap ''error verifying connection: {{err}}'' (LibError ''connection refused''))
   \<and> Initialized
        (fst (snd (Init plain_lib (env_of connect_refused) (connProducer new) test_conf True [])))"
  by (simp add: run_defs)

subsection \<open>Closing\<close>

text \<open>
  Claim C3, as amended.  \<open>Close\<close> on a producer with no cached cluster is a no-op that
  returns ok.  With a cached cluster, \<open>Close\<close> makes exactly one call, closing that
  cluster: if that call succeeds, \<open>Close\<close> returns ok and clears the cached reference; if
  it fails, \<open>Close\<close> returns that error and leaves the producer, with its cached
  reference, as it was.  So the cached reference is nil after every \<open>Close\<close> that returns
  ok, and an error is returned only when a cluster was cached.
\<close>

theorem Close_clears_on_success:
  "(cluster c = None \<longrightarrow> Close E c w = (None, c, w))
   \<and> (\<forall>cl. cluster c = Some cl \<longrightarrow> snd (snd (Close E c w)) = w @ [Cluster_Close cl])
   \<and> (fst (Close E c w) = None \<longrightarrow> cluster (fst (snd (Close E c w))) = None)
   \<and> (fst (Close E c w) \<noteq> None \<longrightarrow>
        cluster c \<noteq> None \<and> fst (snd (Close E c w)) = c)
   \<and> (\<forall>cl e. cluster c = Some cl \<and> outcome E w (Cluster_Close cl) = Some e \<longrightarrow>
        Close E c w = (Some e, c, w @ [Cluster_Close cl]))
   \<and> (\<forall>cl. cluster c = Some cl \<and> outcome E w (Cluster_Close cl) = None \<longrightarrow>
        Close E c w = (None, c\<lparr>cluster := None\<rparr>, w @ [Cluster_Close cl]))"
  by (auto simp: Close_def invoke_def split: option.splits)

theorem Close_clears_on_success_witness:
  "fst (Close (env_of all_ok) (fst (connected (env_of all_ok))) (snd (connected (env_of all_ok))))
     = None
   \<and> cluster (fst (snd (Close (env_of all_ok) (fst (connected (env_of all_ok)))
                          (snd (connected (env_of all_ok))))))
     = None
   \<and> snd (snd (Close (env_of all_ok) (fst (connected (env_of all_ok)))
                  (snd (connected (env_of all_ok)))))
     = snd (connected (env_of all_ok)) @ [Cluster_Close 0]
   \<and> Close (env_of all_ok) ready_producer [] = (None, ready_producer, [])
   \<and> Close (env_of close_fails) (fst (connected (env_of all_ok)))
         (snd (connected (env_of all_ok)))
     = (Some (LibError ''bucket close failed''), fst (connected (env_of all_ok)),
        snd (connected (env_of all_ok)) @ [Cluster_Close 0])"
proof -
  let ?E = "env_of all_ok"
  let ?F = "env_of close_fails"
  let ?c = "fst (connected ?E)"
  let ?w = "snd (connected ?E)"
  have ok: "fst (Close ?E ?c ?w) = None" by (simp add: run_defs)
  have cl: "cluster ?c = Some 0" by (simp add: run_defs)
  have no: "cluster ready_producer = None" by (simp add: run_defs)
  have ko: "outcome ?F ?w (Cluster_Close 0) = Some (LibError ''bucket close failed'')"
    by (simp add: env_of_def)
  from Close_clears_on_success [of ?c ?E ?w] ok cl
  have "cluster (fst (snd (Close ?E ?c ?w))) = None"
    and "snd (snd (Close ?E ?c ?w)) = ?w @ [Cluster_Close 0]" by blast+
  moreover from Close_clears_on_success [of ready_producer ?E "[]"] no
  have "Close ?E ready_producer [] = (None, ready_producer, [])" by blast
  moreover from Close_clears_on_success [of ?c ?F ?w] cl ko
  have "Close ?F ?c ?w = (Some (LibError ''bucket close failed''), ?c, ?w @ [Cluster_Close 0])"
    by blast
  ultimately show ?thesis using ok by blast
qed

text \<open>
  Claim C3 as stated fails: when closing the cached cluster fails, \<open>Close\<close> returns the
  error and the cached reference is still cluster 0, not nil.
\<close>

theorem Close_keeps_reference_counterexample:
  "cluster (fst (connected (env_of close_fails))) = Some 0
   \<and> fst (Close (env_of close_fails) (fst (connected (env_of close_fails)))
            (snd (connected (env_of close_fails))))
       = Some (LibError ''bucket close failed'')
   \<and> cluster (fst (snd (Close (env_of close_fails) (fst (connected (env_of close_fails)))
                           (snd (connected (env_of close_fails))))))
       = Some 0"
  by (simp add: run_defs)

section \<open>Generated usernames\<close>

text \<open>
  Claim C9, against the generator of the specification.  For the plugin that \<open>new\<close>
  builds, in any state of its connection producer, a username that \<open>CreateUser\<close> returns
  is the generated one unchanged: at most 100 characters long, and made of the display
  name cut to at most 15 characters, the separator \<open>_\<close>, and the role name cut to at most
  15 characters.
\<close>

theorem CreateUser_username_shape:
  assumes gen: "gen_username E = (\<lambda>w. spec_generateUsername)"
    and run: "CreateUser L E (new\<lparr>connProducer := c\<rparr>) st cfg ex w
                = (Inr (username, password), cb', w')"
  shows "length username \<le> 100
     \<and> username = take 15 (DisplayName cfg) @ ''_'' @ take 15 (RoleName cfg)
     \<and> length (take 15 (DisplayName cfg)) \<le> 15
     \<and> length (take 15 (RoleName cfg)) \<le> 15"
proof -
  from CreateUser_returns_generated [OF run] gen
  have "username = spec_generateUsername (credsProducer (new\<lparr>connProducer := c\<rparr>)) cfg"
    by auto
  then have u: "username =
      take 100 (take 15 (DisplayName cfg) @ ''_'' @ take 15 (RoleName cfg))"
    by (simp add: spec_generateUsername_def new_def)
  have "length (take 15 (DisplayName cfg) @ ''_'' @ take 15 (RoleName cfg)) \<le> 100"
    by simp
  with u have "username = take 15 (DisplayName cfg) @ ''_'' @ take 15 (RoleName cfg)"
    by simp
  moreover from u have "length username \<le> 100" by simp
  ultimately show ?thesis by simp
qed

theorem CreateUser_username_shape_witness:
  "fst (CreateUser plain_lib spec_env ready (creation_only [stmt_full_access]) long_user 0 [])
     = Inr (''integration-tes_couchbase-full-'', ''A1a-Zx81kq'')
   \<and> length ''integration-tes_couchbase-full-'' \<le> 100
   \<and> ''integration-tes_couchbase-full-''
       = take 15 (DisplayName long_user) @ ''_'' @ take 15 (RoleName long_user)"
proof -
  let ?r = "CreateUser plain_lib spec_env (new\<lparr>connProducer := ready_producer\<rparr>)
              (creation_only [stmt_full_access]) long_user 0 []"
  have gen: "gen_username spec_env = (\<lambda>w. spec_generateUsername)"
    by (simp add: spec_env_def)
  have res: "fst ?r = Inr (''integration-tes_couchbase-full-'', ''A1a-Zx81kq'')"
    by (simp add: run_defs)
  then have run: "?r = (Inr (''integration-tes_couchbase-full-'', ''A1a-Zx81kq''),
                        fst (snd ?r), snd (snd ?r))"
    by (cases ?r) simp
  from CreateUser_username_shape [OF gen run]
  have "length ''integration-tes_couchbase-full-'' \<le> 100"
    and "''integration-tes_couchbase-full-''
           = take 15 (DisplayName long_user) @ ''_'' @ take 15 (RoleName long_user)"
    by blast+
  with res show ?thesis unfolding ready_def by blast
qed

end
